theory Spec2Isabelle
  imports Complex_Main "HOL-Library.Sublist"
begin

section \<open>The forecast constraint engine of the dashboard client\<close>

text \<open>
  Source: \<^verbatim>\<open>client/src/components/Dashboard.tsx\<close>, \<^verbatim>\<open>generateSpeculativeForecast\<close>.

  JavaScript numbers are read as real numbers. A result of type \<open>real option\<close> is a
  JavaScript number that may be \<^verbatim>\<open>NaN\<close>: \<open>None\<close> is \<^verbatim>\<open>NaN\<close>. A field of
  \<^verbatim>\<open>alt_forecasts\<close> of type \<open>real option\<close> is \<open>None\<close> when the property is absent
  (\<^verbatim>\<open>undefined\<close>), which arithmetic turns into \<^verbatim>\<open>NaN\<close>.
  The scenario is given by its \<^verbatim>\<open>alt_forecasts\<close>, the only part the function reads.
  The two environment reads of the function are parameters: \<^verbatim>\<open>new Date().getFullYear()\<close>
  is \<open>currentYear\<close>, and the draws of \<^verbatim>\<open>Math.random()\<close> are given per array index
  (\<open>tippingDraw\<close> for the temperature curve, \<open>iceSheetDraw\<close> for the sea level curve).
\<close>

record forecast_point =
  point_year :: int
  point_value :: real

record series =
  current :: real
  forecast :: "forecast_point list"

record climate_data =
  global_temp :: series
  carbon_emissions :: series
  sea_level_rise :: series
  forest_loss :: series

record alt_forecasts =
  global_temp_2100 :: "real option"
  carbon_emissions_2100 :: "real option"
  sea_level_rise_2100 :: "real option"
  death_toll_annual :: "real option"
  refugees :: "real option"
  arable_land_loss_percent :: "real option"
  population :: "real option"
  biodiversity_loss_percent :: "real option"
  gdp_loss_percent :: "real option"

record scenario_draft =
  theme :: string
  alt_forecasts :: alt_forecasts
  narrative :: string

record chart_row =
  year :: int
  baseline :: real
  speculative :: "real option"

record speculative_forecast =
  temperature :: "chart_row list"
  emissions :: "chart_row list"
  seaLevel :: "chart_row list"















text \<open>\<^verbatim>\<open>years.map((year, index) => ...)\<close>\<close>

definition map_indexed :: "('a \<Rightarrow> nat \<Rightarrow> 'b) \<Rightarrow> 'a list \<Rightarrow> 'b list" where
  "map_indexed f xs = map (\<lambda>(x, i). f x i) (zip xs [0..<length xs])"


section \<open>JavaScript values on the server\<close>

text \<open>
  Source: the Express server (\<^verbatim>\<open>src/unnamed/part_002\<close>) and \<^verbatim>\<open>server/database.js\<close>.

  Request bodies, parsed completions and response bodies are JSON values. A JSON number
  is kept as a decimal: \<open>JNum m s\<close> is \<open>m / 10 ^ s\<close> with the least possible \<open>s\<close>
  (\<open>JNum 18 1\<close> is 1.8, \<open>JNum 9800000000 0\<close> is 9.8e9). An object is the list of its
  properties in insertion order; that JavaScript lists keys that are array indices first
  is not modelled. A JavaScript value that may be \<^verbatim>\<open>undefined\<close> has type
  \<open>json option\<close>, with \<open>None\<close> for \<^verbatim>\<open>undefined\<close>.
\<close>

datatype json =
    JNull
  | JBool bool
  | JNum int nat
  | JStr string
  | JArr "json list"
  | JObj "(string \<times> json) list"

datatype js_error = Error string | TypeError | SyntaxError

fun dec_norm :: "int \<Rightarrow> nat \<Rightarrow> int \<times> nat" where
  "dec_norm m 0 = (m, 0)"
| "dec_norm m (Suc s) = (if m mod 10 = 0 then dec_norm (m div 10) s else (m, Suc s))"

definition jnum :: "int \<Rightarrow> nat \<Rightarrow> json" where
  "jnum m s = (case dec_norm m s of (m', s') \<Rightarrow> JNum m' s')"

text \<open>Truthiness, as used by \<^verbatim>\<open>baseline || {...}\<close>.\<close>

fun truthy :: "json \<Rightarrow> bool" where
  "truthy JNull = False"
| "truthy (JBool b) = b"
| "truthy (JNum m s) = (m \<noteq> 0)"
| "truthy (JStr s) = (s \<noteq> [])"
| "truthy (JArr vs) = True"
| "truthy (JObj fs) = True"

definition or_default :: "json option \<Rightarrow> json \<Rightarrow> json" where
  "or_default v d = (case v of None \<Rightarrow> d | Some x \<Rightarrow> if truthy x then x else d)"

text \<open>
  Property read \<^verbatim>\<open>v.k\<close>: a \<^verbatim>\<open>TypeError\<close> on \<^verbatim>\<open>undefined\<close> and \<^verbatim>\<open>null\<close>,
  the property of an object, \<^verbatim>\<open>undefined\<close> on every other value (none of the keys read
  by the server is a built-in property of a string, number, boolean or array).
\<close>

fun member :: "json \<Rightarrow> string \<Rightarrow> json option" where
  "member (JObj fs) k = map_of fs k"
| "member v k = None"

definition read_prop :: "json option \<Rightarrow> string \<Rightarrow> js_error + json option" where
  "read_prop v k =
     (case v of
        None \<Rightarrow> Inl TypeError
      | Some JNull \<Rightarrow> Inl TypeError
      | Some x \<Rightarrow> Inr (member x k))"

text \<open>
  The receiver of a method call such as \<^verbatim>\<open>x.toLocaleString()\<close>: a \<^verbatim>\<open>TypeError\<close> on
  \<^verbatim>\<open>undefined\<close> and \<^verbatim>\<open>null\<close>; every other value has the method.
\<close>

definition receiver :: "json option \<Rightarrow> js_error + json" where
  "receiver v =
     (case v of
        None \<Rightarrow> Inl TypeError
      | Some JNull \<Rightarrow> Inl TypeError
      | Some x \<Rightarrow> Inr x)"

text \<open>
  Object construction. \<open>obj_put\<close> sets a property: a new key goes last, an existing key
  keeps its place. In an object literal a property may be \<^verbatim>\<open>undefined\<close> (its value is
  then \<open>None\<close>); \<^verbatim>\<open>res.json\<close>, which serializes the body with \<^verbatim>\<open>JSON.stringify\<close>, leaves
  such a property out.
\<close>

fun obj_put :: "string \<Rightarrow> 'v \<Rightarrow> (string \<times> 'v) list \<Rightarrow> (string \<times> 'v) list" where
  "obj_put k v [] = [(k, v)]"
| "obj_put k v ((k', v') # fs) = (if k' = k then (k, v) # fs else (k', v') # obj_put k v fs)"

definition defined_properties :: "(string \<times> json option) list \<Rightarrow> (string \<times> json) list" where
  "defined_properties fs = concat (map (\<lambda>kv. case snd kv of None \<Rightarrow> [] | Some v \<Rightarrow> [(fst kv, v)]) fs)"

text \<open>The decimal digits of a number that is not negative, as in an array index used as a key.\<close>

definition digit_char :: "nat \<Rightarrow> char" where
  "digit_char n = char_of (48 + n)"

function show_nat :: "int \<Rightarrow> string" where
  "show_nat n =
     (if n < 10 then [digit_char (nat n)] else show_nat (n div 10) @ [digit_char (nat (n mod 10))])"
  by pat_completeness auto
termination
  by (relation "measure nat") auto

declare show_nat.simps [simp del]

definition index_keys :: "nat \<Rightarrow> string list" where
  "index_keys n = map (\<lambda>i. show_nat (int i)) [0..<n]"

section \<open>Strings\<close>

text \<open>
  A string is the list of the bytes of its UTF-8 encoding, a lone surrogate written as the
  three bytes of its code point. JavaScript counts a string in UTF-16 code units: a
  character of one, two or three bytes is one unit, a character of four bytes is two
  units, a high and a low surrogate. The functions below follow the lead bytes and are
  meant for well-formed texts. Lower-casing acts on the ASCII range.
\<close>

definition degree_sign :: string where
  "degree_sign = [CHR 0xC2, CHR 0xB0]"

definition em_dash :: string where
  "em_dash = [CHR 0xE2, CHR 0x80, CHR 0x94]"

text \<open>
  The characters that \<^verbatim>\<open>String.prototype.trim\<close> strips, white space and line
  terminators: U+0009 to U+000D, U+0020, U+00A0, U+1680, U+2000 to U+200A, U+2028,
  U+2029, U+202F, U+205F, U+3000 and U+FEFF.
\<close>

definition white_space :: "string list" where
  "white_space =
     [[CHR 0x09], [CHR 0x0A], [CHR 0x0B], [CHR 0x0C], [CHR 0x0D], [CHR 0x20],
      [CHR 0xC2, CHR 0xA0],
      [CHR 0xE1, CHR 0x9A, CHR 0x80],
      [CHR 0xE2, CHR 0x80, CHR 0x80], [CHR 0xE2, CHR 0x80, CHR 0x81],
      [CHR 0xE2, CHR 0x80, CHR 0x82], [CHR 0xE2, CHR 0x80, CHR 0x83],
      [CHR 0xE2, CHR 0x80, CHR 0x84], [CHR 0xE2, CHR 0x80, CHR 0x85],
      [CHR 0xE2, CHR 0x80, CHR 0x86], [CHR 0xE2, CHR 0x80, CHR 0x87],
      [CHR 0xE2, CHR 0x80, CHR 0x88], [CHR 0xE2, CHR 0x80, CHR 0x89],
      [CHR 0xE2, CHR 0x80, CHR 0x8A],
      [CHR 0xE2, CHR 0x80, CHR 0xA8], [CHR 0xE2, CHR 0x80, CHR 0xA9],
      [CHR 0xE2, CHR 0x80, CHR 0xAF],
      [CHR 0xE2, CHR 0x81, CHR 0x9F],
      [CHR 0xE3, CHR 0x80, CHR 0x80],
      [CHR 0xEF, CHR 0xBB, CHR 0xBF]]"

definition leading_space :: "string \<Rightarrow> string option" where
  "leading_space s = find (\<lambda>w. prefix w s) white_space"

definition trailing_space :: "string \<Rightarrow> string option" where
  "trailing_space s = find (\<lambda>w. suffix w s) white_space"

function trimStart :: "string \<Rightarrow> string" where
  "trimStart s =
     (case leading_space s of None \<Rightarrow> s | Some w \<Rightarrow> trimStart (drop (length w) s))"
  by pat_completeness auto
termination
proof (relation "measure length")
  fix s w
  assume "leading_space s = Some w"
  then have "w \<in> set white_space" and "prefix w s"
    by (auto simp: leading_space_def find_Some_iff)
  moreover have "[] \<notin> set white_space"
    by (simp add: white_space_def)
  ultimately have "0 < length w" and "length w \<le> length s"
    by (auto simp: prefix_def)
  then show "(drop (length w) s, s) \<in> measure length"
    by (simp del: length_greater_0_conv)
qed simp

function trimEnd :: "string \<Rightarrow> string" where
  "trimEnd s =
     (case trailing_space s of
        None \<Rightarrow> s
      | Some w \<Rightarrow> trimEnd (take (length s - length w) s))"
  by pat_completeness auto
termination
proof (relation "measure length")
  fix s w
  assume "trailing_space s = Some w"
  then have "w \<in> set white_space" and "suffix w s"
    by (auto simp: trailing_space_def find_Some_iff)
  moreover have "[] \<notin> set white_space"
    by (simp add: white_space_def)
  ultimately have "0 < length w" and "length w \<le> length s"
    by (auto simp: suffix_def)
  then show "(take (length s - length w) s, s) \<in> measure length"
    by (simp del: length_greater_0_conv)
qed simp

declare trimStart.simps [simp del]
declare trimEnd.simps [simp del]

definition trim :: "string \<Rightarrow> string" where
  "trim s = trimEnd (trimStart s)"

text \<open>
  UTF-16 code units. \<open>utf8_width\<close> is the number of bytes of the character that a byte
  leads; \<open>surrogates\<close> gives the two halves of a character of four bytes.
\<close>

definition utf8_width :: "char \<Rightarrow> nat" where
  "utf8_width c =
     (if (of_char c :: int) < 0xC0 then 1
      else if (of_char c :: int) < 0xE0 then 2
      else if (of_char c :: int) < 0xF0 then 3
      else 4)"

definition unit_bytes :: "int \<Rightarrow> string" where
  "unit_bytes u =
     [char_of (0xE0 + u div 4096), char_of (0x80 + (u div 64) mod 64), char_of (0x80 + u mod 64)]"

fun surrogates :: "string \<Rightarrow> string list" where
  "surrogates [b0, b1, b2, b3] =
     (let v = (of_char b0 mod 8) * 262144 + (of_char b1 mod 64) * 4096
              + (of_char b2 mod 64) * 64 + of_char b3 mod 64 - 0x10000
      in [unit_bytes (0xD800 + v div 1024), unit_bytes (0xDC00 + v mod 1024)])"
| "surrogates ch = [ch]"

fun code_units :: "string \<Rightarrow> string list" where
  "code_units [] = []"
| "code_units (c # cs) =
     (if utf8_width c = 4 then surrogates (c # take 3 cs) @ code_units (drop 3 cs)
      else (c # take (utf8_width c - 1) cs) # code_units (drop (utf8_width c - 1) cs))"

text \<open>
  \<^verbatim>\<open>s.substring(0, n)\<close>: the first \<open>n\<close> code units. A character of four bytes is kept
  whole when both of its units are taken; only its high surrogate is left when the cut
  falls between them.
\<close>

fun first_units :: "nat \<Rightarrow> string \<Rightarrow> string" where
  "first_units n [] = []"
| "first_units n (c # cs) =
     (if n = 0 then []
      else if utf8_width c = 4
           then (if n = 1 then hd (surrogates (c # take 3 cs))
                 else c # take 3 cs @ first_units (n - 2) (drop 3 cs))
           else c # take (utf8_width c - 1) cs @ first_units (n - 1) (drop (utf8_width c - 1) cs))"

text \<open>
  The own enumerable properties of a value, as spread into an object literal by
  \<^verbatim>\<open>{...v}\<close>: the properties of an object, the elements of an array and the code units of
  a string under their indices, nothing for a number, a boolean or \<^verbatim>\<open>null\<close>.
\<close>

fun own_properties :: "json \<Rightarrow> (string \<times> json) list" where
  "own_properties (JObj fs) = fs"
| "own_properties (JArr vs) = zip (index_keys (length vs)) vs"
| "own_properties (JStr s) = zip (index_keys (length (code_units s))) (map JStr (code_units s))"
| "own_properties v = []"

definition spread ::
  "json \<Rightarrow> (string \<times> json option) list \<Rightarrow> (string \<times> json option) list" where
  "spread v fs = foldl (\<lambda>acc kv. obj_put (fst kv) (Some (snd kv)) acc) fs (own_properties v)"

definition lower_char :: "char \<Rightarrow> char" where
  "lower_char c =
     (if 65 \<le> (of_char c :: nat) \<and> (of_char c :: nat) \<le> 90 then char_of ((of_char c :: nat) + 32)
      else c)"

definition toLowerCase :: "string \<Rightarrow> string" where
  "toLowerCase s = map lower_char s"

text \<open>\<^verbatim>\<open>s.includes(k)\<close>: \<open>k\<close> occurs in \<open>s\<close> as a substring.\<close>

fun str_includes :: "string \<Rightarrow> string \<Rightarrow> bool" where
  "str_includes [] k = (k = [])"
| "str_includes (c # cs) k = (take (length k) (c # cs) = k \<or> str_includes cs k)"

text \<open>
  \<^verbatim>\<open>response.match(/\{[\s\S]*\}/)\<close>: the match starts at the first opening brace and,
  the star being greedy, ends at the last closing brace after it; there is no match when
  no closing brace follows the first opening brace.
\<close>

definition match_braces :: "string \<Rightarrow> string option" where
  "match_braces s =
     (let r = dropWhile (\<lambda>c. c \<noteq> CHR ''{'') s
      in if CHR ''}'' \<in> set r then Some (rev (dropWhile (\<lambda>c. c \<noteq> CHR ''}'') (rev r)))
         else None)"

section \<open>Scenario generation on the server\<close>

text \<open>
  The prompt is a template literal with fixed text; it is represented by the values
  interpolated into it. The completion service is a parameter \<open>openai\<close>: it answers a
  request with the text of the first choice (\<open>Inr\<close>) or fails with a message (\<open>Inl\<close>),
  which stands for every exception raised before the text is in hand. \<^verbatim>\<open>JSON.parse\<close>
  is a parameter as well (\<open>None\<close> when it throws).
\<close>

record scenario_prompt =
  prompt_userInput :: "json option"
  prompt_global_temp :: "json option"
  prompt_sea_level_rise :: "json option"
  prompt_death_toll_annual :: json
  prompt_refugees :: json
  prompt_gdp_loss_percent :: "json option"

record completion_request =
  completion_model :: string
  completion_prompt :: scenario_prompt
  completion_max_tokens :: nat
  completion_temperature :: real

definition build_prompt :: "json option \<Rightarrow> json \<Rightarrow> json \<Rightarrow> js_error + scenario_prompt" where
  "build_prompt userInput baselineData humanImpacts =
     (case read_prop (Some baselineData) ''global_temp'' of
        Inl e \<Rightarrow> Inl e
      | Inr temp_series \<Rightarrow>
     (case read_prop temp_series ''current'' of
        Inl e \<Rightarrow> Inl e
      | Inr temp \<Rightarrow>
     (case read_prop (Some baselineData) ''sea_level_rise'' of
        Inl e \<Rightarrow> Inl e
      | Inr sea_series \<Rightarrow>
     (case read_prop sea_series ''current'' of
        Inl e \<Rightarrow> Inl e
      | Inr sea \<Rightarrow>
     (case read_prop (Some humanImpacts) ''death_toll_annual'' of
        Inl e \<Rightarrow> Inl e
      | Inr death_toll \<Rightarrow>
     (case receiver death_toll of
        Inl e \<Rightarrow> Inl e
      | Inr deaths \<Rightarrow>
     (case read_prop (Some humanImpacts) ''refugees'' of
        Inl e \<Rightarrow> Inl e
      | Inr refugees_value \<Rightarrow>
     (case receiver refugees_value of
        Inl e \<Rightarrow> Inl e
      | Inr refs \<Rightarrow>
     (case read_prop (Some humanImpacts) ''gdp_loss_percent'' of
        Inl e \<Rightarrow> Inl e
      | Inr gdp \<Rightarrow>
          Inr \<lparr>prompt_userInput = userInput, prompt_global_temp = temp,
               prompt_sea_level_rise = sea, prompt_death_toll_annual = deaths,
               prompt_refugees = refs, prompt_gdp_loss_percent = gdp\<rparr>)))))))))"

text \<open>
  The body of the inner \<^verbatim>\<open>try\<close> of \<^verbatim>\<open>generateScenario\<close>, applied to the trimmed
  completion text. It returns the decoded value or throws an \<^verbatim>\<open>Error\<close>, given here by
  its message.
\<close>

definition parse_response :: "(string \<Rightarrow> json option) \<Rightarrow> string \<Rightarrow> string + json" where
  "parse_response JSON_parse response =
     (case JSON_parse response of
        Some parsed \<Rightarrow> Inr parsed
      | None \<Rightarrow>
          (case match_braces response of
             Some jsonMatch \<Rightarrow>
               (case JSON_parse jsonMatch of
                  Some extracted \<Rightarrow> Inr extracted
                | None \<Rightarrow>
                    Inl (''AI generated invalid JSON. Response: '' @ first_units 200 response @ ''...''))
           | None \<Rightarrow>
               Inl (''AI did not generate valid JSON. Response: '' @ first_units 200 response @ ''...'')))"

text \<open>The outer \<^verbatim>\<open>catch\<close>: the error is thrown again under a new message.\<close>

definition rethrow :: "string + json \<Rightarrow> js_error + json" where
  "rethrow r =
     (case r of Inl message \<Rightarrow> Inl (Error (''OpenAI API error: '' @ message)) | Inr v \<Rightarrow> Inr v)"

text \<open>
  The result comes with the list of requests sent to the completion service. The prompt
  is built before the \<^verbatim>\<open>try\<close>, so its \<^verbatim>\<open>TypeError\<close> is not rethrown.
\<close>

definition generateScenario ::
  "(string \<Rightarrow> json option) \<Rightarrow> (completion_request \<Rightarrow> string + string) \<Rightarrow> json option \<Rightarrow> json
     \<Rightarrow> json \<Rightarrow> (js_error + json) \<times> completion_request list" where
  "generateScenario JSON_parse openai userInput baselineData humanImpacts =
     (case build_prompt userInput baselineData humanImpacts of
        Inl e \<Rightarrow> (Inl e, [])
      | Inr prompt \<Rightarrow>
          (let request = \<lparr>completion_model = ''gpt-3.5-turbo'', completion_prompt = prompt,
                          completion_max_tokens = 1200, completion_temperature = 0.9\<rparr>
           in case openai request of
                Inl message \<Rightarrow> (rethrow (Inl message), [request])
              | Inr content \<Rightarrow> (rethrow (parse_response JSON_parse (trim content)), [request])))"

section \<open>The scenario store\<close>

text \<open>
  The table \<^verbatim>\<open>scenarios\<close> is the list of its rows in insertion order; a table that
  does not exist yet is the empty list (\<^verbatim>\<open>CREATE TABLE IF NOT EXISTS\<close>). Input and
  output errors of the database are not modelled.
\<close>

record scenario_row =
  row_id :: nat
  row_user_input :: string
  row_theme :: string
  row_alt_forecasts :: string
  row_narrative :: string
  row_created_at :: string

type_synonym database = "scenario_row list"

text \<open>\<^verbatim>\<open>INTEGER PRIMARY KEY AUTOINCREMENT\<close>; no row is ever deleted.\<close>

definition next_id :: "database \<Rightarrow> nat" where
  "next_id db = Suc (foldr (\<lambda>r m. max (row_id r) m) db 0)"

definition insert_row ::
  "database \<Rightarrow> string \<Rightarrow> string \<Rightarrow> string \<Rightarrow> string \<Rightarrow> string \<Rightarrow> database \<times> nat" where
  "insert_row db user_input theme_text alt_forecasts_text narrative_text created_at =
     (db @ [\<lparr>row_id = next_id db, row_user_input = user_input, row_theme = theme_text,
             row_alt_forecasts = alt_forecasts_text, row_narrative = narrative_text,
             row_created_at = created_at\<rparr>],
      next_id db)"

text \<open>\<^verbatim>\<open>SELECT *\<close>: the columns of a row in the order of the table definition.\<close>

definition row_json :: "scenario_row \<Rightarrow> (string \<times> json) list" where
  "row_json r =
     [(''id'', jnum (int (row_id r)) 0),
      (''user_input'', JStr (row_user_input r)),
      (''theme'', JStr (row_theme r)),
      (''alt_forecasts'', JStr (row_alt_forecasts r)),
      (''narrative'', JStr (row_narrative r)),
      (''created_at'', JStr (row_created_at r))]"

text \<open>
  The driver is the package \<^verbatim>\<open>sqlite3\<close> that \<^verbatim>\<open>server/database.js\<close> requires. Its
  statements work through callbacks: \<^verbatim>\<open>stmt.all\<close>, \<^verbatim>\<open>stmt.get\<close> and \<^verbatim>\<open>stmt.run\<close>
  queue the statement and return the statement object itself, for chaining; rows, errors
  and \<^verbatim>\<open>lastID\<close> reach only a callback, after the caller has returned.
  \<^verbatim>\<open>initDatabase\<close> passes a callback. The handlers pass none and use the value of the
  call, written as if it were an array of rows, a row or \<^verbatim>\<open>undefined\<close>.
\<close>

datatype driver_value = Statement | Rows "scenario_row list" | Row scenario_row | Undefined

definition stmt_all :: "database \<Rightarrow> driver_value" where
  "stmt_all db = Statement"

definition stmt_get :: "database \<Rightarrow> nat \<Rightarrow> driver_value" where
  "stmt_get db ident = Statement"

text \<open>
  \<^verbatim>\<open>result.lastID\<close>, read right after the call of \<^verbatim>\<open>stmt.run\<close>: the property is set
  on the statement object when the statement has run, which is later; neither a row nor an
  array has it.
\<close>

definition lastID :: "driver_value \<Rightarrow> json option" where
  "lastID result = None"

text \<open>
  The texts that the insert statement of the creation handler stores for its five
  arguments, or \<open>None\<close> when the statement fails. Arguments that are all strings are
  stored as they are. What the driver binds for any other list of arguments
  (\<^verbatim>\<open>undefined\<close>, \<^verbatim>\<open>null\<close>, a number, an object or array in the first place) is its
  own business and a parameter here.
\<close>

fun text_of :: "json option \<Rightarrow> string option" where
  "text_of (Some (JStr s)) = Some s"
| "text_of v = None"

definition bound_texts ::
  "(json option list \<Rightarrow> string list option) \<Rightarrow> json option list \<Rightarrow> string list option" where
  "bound_texts driver args =
     (case those (map text_of args) of Some texts \<Rightarrow> Some texts | None \<Rightarrow> driver args)"

text \<open>
  \<^verbatim>\<open>stmt.run\<close> without a callback: the value of the call, and the table once the queued
  statement has run. A failure of the statement is not seen by the caller.
\<close>

definition stmt_run ::
  "(json option list \<Rightarrow> string list option) \<Rightarrow> database \<Rightarrow> json option list
     \<Rightarrow> driver_value \<times> database" where
  "stmt_run driver db args =
     (Statement,
      case bound_texts driver args of
        Some [user_input, theme_text, alt_forecasts_text, narrative_text, created_at] \<Rightarrow>
          fst (insert_row db user_input theme_text alt_forecasts_text narrative_text created_at)
      | _ \<Rightarrow> db)"

section \<open>The HTTP handlers\<close>

text \<open>
  A handler answers through \<^verbatim>\<open>res\<close> or throws. An exception that leaves a synchronous
  handler is answered by Express with status 500.
\<close>

datatype http_result = Response nat json | Uncaught js_error

fun status :: "http_result \<Rightarrow> nat" where
  "status (Response code body) = code"
| "status (Uncaught e) = 500"

record scenario_request =
  req_userInput :: "json option"
  req_baselineData :: "json option"
  req_humanImpacts :: "json option"

record outcome =
  response :: http_result
  store :: database
  sent :: "completion_request list"

definition default_baselineData :: json where
  "default_baselineData =
     JObj [(''global_temp'', JObj [(''current'', JNum 11 1), (''forecast'', JArr [])]),
           (''carbon_emissions'', JObj [(''current'', JNum 385 1), (''forecast'', JArr [])]),
           (''sea_level_rise'', JObj [(''current'', JNum 22 2), (''forecast'', JArr [])]),
           (''forest_loss'', JObj [(''current'', JNum 15 0), (''forecast'', JArr [])])]"

definition default_humanImpacts :: json where
  "default_humanImpacts =
     JObj [(''death_toll_annual'', JNum 500000 0),
           (''population'', JNum 8100000000 0),
           (''arable_land_loss_percent'', JNum 15 0),
           (''refugees'', JNum 25000000 0),
           (''gdp_loss_percent'', JNum 8 0),
           (''biodiversity_loss_percent'', JNum 30 0)]"

definition failed_to_create :: http_result where
  "failed_to_create = Response 500 (JObj [(''error'', JStr ''Failed to create scenario'')])"

text \<open>
  \<^verbatim>\<open>app.post('/api/scenarios', ...)\<close>. \<open>JSON_stringify\<close> and the clock \<open>now\<close>
  (\<^verbatim>\<open>new Date().toISOString()\<close>) are parameters. The arguments of \<^verbatim>\<open>stmt.run\<close> are
  evaluated in order; \<^verbatim>\<open>JSON.stringify(undefined)\<close> is \<^verbatim>\<open>undefined\<close>. The body is
  the literal \<^verbatim>\<open>{id: result.lastID, ...aiResponse, userInput}\<close>. The store of the outcome
  is the table once the queued statement has run.
\<close>

definition post_scenarios ::
  "(string \<Rightarrow> json option) \<Rightarrow> (json \<Rightarrow> string) \<Rightarrow> (completion_request \<Rightarrow> string + string)
     \<Rightarrow> (json option list \<Rightarrow> string list option) \<Rightarrow> string
     \<Rightarrow> database \<Rightarrow> scenario_request \<Rightarrow> outcome" where
  "post_scenarios JSON_parse JSON_stringify openai driver now db req =
     (let userInput = req_userInput req;
          baselineData = or_default (req_baselineData req) default_baselineData;
          humanImpacts = or_default (req_humanImpacts req) default_humanImpacts
      in case generateScenario JSON_parse openai userInput baselineData humanImpacts of
           (Inl e, requests) \<Rightarrow> \<lparr>response = failed_to_create, store = db, sent = requests\<rparr>
         | (Inr aiResponse, requests) \<Rightarrow>
             (case read_prop (Some aiResponse) ''theme'' of
                Inl e \<Rightarrow> \<lparr>response = failed_to_create, store = db, sent = requests\<rparr>
              | Inr theme_value \<Rightarrow>
                  (case stmt_run driver db
                          [userInput, theme_value,
                           map_option (\<lambda>v. JStr (JSON_stringify v))
                             (member aiResponse ''alt_forecasts''),
                           member aiResponse ''narrative'', Some (JStr now)] of
                     (result, db') \<Rightarrow>
                       \<lparr>response =
                          Response 200
                            (JObj (defined_properties
                                     (obj_put ''userInput'' userInput
                                        (spread aiResponse
                                           [(''id'', lastID result)])))),
                        store = db', sent = requests\<rparr>)))"

text \<open>
  \<^verbatim>\<open>app.get('/api/scenarios', ...)\<close>: the value of \<^verbatim>\<open>stmt.all()\<close> is sent when it is
  an array; the empty array is sent when it is falsy or not an array, as the statement
  object is.
\<close>

definition get_scenarios :: "database \<Rightarrow> http_result" where
  "get_scenarios db =
     (case stmt_all db of
        Rows scenarios \<Rightarrow> Response 200 (JArr (map (\<lambda>r. JObj (row_json r)) scenarios))
      | _ \<Rightarrow> Response 200 (JArr []))"

text \<open>
  \<^verbatim>\<open>app.get('/api/scenarios/:id', ...)\<close>, with the id given as a number. Only
  \<^verbatim>\<open>undefined\<close> is falsy and answered with status 404. The \<^verbatim>\<open>JSON.parse\<close> is outside
  any \<^verbatim>\<open>try\<close>. On a value that is truthy and not a row, \<^verbatim>\<open>alt_forecasts\<close> is
  \<^verbatim>\<open>undefined\<close>; \<^verbatim>\<open>JSON.parse\<close> turns its argument into the text "undefined", which
  is no JSON text, and throws.
\<close>

definition get_scenario :: "(string \<Rightarrow> json option) \<Rightarrow> database \<Rightarrow> nat \<Rightarrow> http_result" where
  "get_scenario JSON_parse db ident =
     (case stmt_get db ident of
        Undefined \<Rightarrow> Response 404 (JObj [(''error'', JStr ''Scenario not found'')])
      | Row scenario \<Rightarrow>
          (case JSON_parse (row_alt_forecasts scenario) of
             None \<Rightarrow> Uncaught SyntaxError
           | Some parsed \<Rightarrow> Response 200 (JObj (obj_put ''alt_forecasts'' parsed (row_json scenario))))
      | _ \<Rightarrow> Uncaught SyntaxError)"

section \<open>Database initialisation\<close>

definition seed_user_input :: string where
  "seed_user_input = ''What if we master fusion energy before 2025?''"

definition seed_theme :: string where
  "seed_theme = ''A fusion-powered renaissance reshaping civilization's energy landscape''"

definition seed_alt_forecasts :: json where
  "seed_alt_forecasts =
     JObj [(''global_temp_2100'', JNum 18 1),
           (''death_toll_annual'', JNum 180000 0),
           (''refugees'', JNum 12000000 0),
           (''arable_land_loss_percent'', JNum 8 0),
           (''population'', JNum 9800000000 0),
           (''biodiversity_loss_percent'', JNum 22 0),
           (''gdp_loss_percent'', JNum 3 0)]"

definition narrative_fusion :: string where
  \<open>narrative_fusion =
       ''In this speculative future, humanity achieved what seemed impossible: commercial fusion energy became a reality. The breakthrough came not from massive government programs, but from a convergence of AI-assisted plasma physics, advanced materials science, and a desperate race against climate catastrophe.''
       @ ''\<newline>\<newline>''
       @ ''The immediate effects were transformative. Within five years, fusion plants began replacing coal and gas facilities worldwide. Carbon emissions plummeted by 40% by 2030, buying humanity precious time to implement other climate solutions. The energy abundance sparked a new industrial revolution, with desalination plants proliferating along coastlines, turning arid regions into agricultural breadbaskets.''
       @ ''\<newline>\<newline>''
       @ ''Yet the transition wasn't without its challenges. The fossil fuel industry's collapse created economic upheaval, while energy abundance led to new forms of consumption and waste. By 2100, global temperatures stabilized at 1.8''
       @ degree_sign
       @ ''C above pre-industrial levels''
       @ em_dash
       @ ''still dangerous, but manageable. The fusion revolution had given humanity a fighting chance, though the deeper lesson was clear: technological breakthroughs alone couldn't solve the complex web of social, economic, and environmental challenges that climate change had woven.''\<close>

definition narrative_decarbonization :: string where
  \<open>narrative_decarbonization =
       ''The world witnessed an unprecedented mobilization of resources and political will as nations raced to achieve net-zero emissions. What began as ambitious targets in 2024 became reality through a combination of technological innovation, policy reform, and cultural transformation.''
       @ ''\<newline>\<newline>''
       @ ''Renewable energy infrastructure expanded exponentially, with solar and wind power becoming the dominant energy sources by 2040. Electric vehicles replaced internal combustion engines, while sustainable urban planning created walkable, carbon-neutral cities. The transition required massive investment but created millions of new jobs in green technology sectors.''
       @ ''\<newline>\<newline>''
       @ ''By 2100, global temperatures had stabilized at 2.2''
       @ degree_sign
       @ ''C above pre-industrial levels''
       @ em_dash
       @ ''still above the 1.5''
       @ degree_sign
       @ ''C target but far below the worst-case scenarios. The rapid decarbonization had prevented catastrophic climate impacts, though adaptation challenges remained. The experience demonstrated that humanity could achieve remarkable change when motivated by existential threats.''\<close>

definition narrative_geoengineering :: string where
  \<open>narrative_geoengineering =
       ''As traditional climate mitigation efforts proved insufficient, humanity turned to geoengineering as a last resort. Solar radiation management techniques, including stratospheric aerosol injection, became operational by 2040, creating a controversial but effective method of cooling the planet.''
       @ ''\<newline>\<newline>''
       @ ''The immediate effects were dramatic''
       @ em_dash
       @ ''global temperatures began stabilizing within years of deployment. However, the technology brought new challenges: regional climate patterns shifted unpredictably, and the world faced difficult questions about who controlled the global thermostat. International governance frameworks struggled to keep pace with the technology's deployment.''
       @ ''\<newline>\<newline>''
       @ ''By 2100, temperatures had stabilized at 1.9''
       @ degree_sign
       @ ''C above pre-industrial levels, but the world had learned that geoengineering was a double-edged sword. While it had prevented catastrophic warming, it had also created new dependencies and governance challenges. The experience taught humanity that technological solutions to climate change required careful consideration of unintended consequences.''\<close>

definition narrative_superhero :: string where
  \<open>narrative_superhero =
       ''When Superman first appeared in 2025, his intervention in the climate crisis was immediate and dramatic. Using his heat vision to melt polar ice caps strategically, he created new water channels that prevented catastrophic flooding while his super-breath generated wind patterns that stabilized extreme weather events. Within months, global temperatures began stabilizing, and the Man of Steel became humanity's greatest ally in the fight against climate change.''
       @ ''\<newline>\<newline>''
       @ ''However, Superman's intervention created unexpected consequences that reshaped human society. His constant presence led to the emergence of "super-dependency syndrome" - a psychological condition where communities became overly reliant on his interventions rather than developing sustainable solutions. The "Superman Effect" also created new geopolitical tensions, as nations competed for his attention and protection. Some regions experienced "super-climate zones" where Superman's interventions created microclimates that were too perfect, leading to the evolution of new species that couldn't survive in natural conditions.''
       @ ''\<newline>\<newline>''
       @ ''By 2100, humanity had learned to balance Superman's help with sustainable development. The "Superman Climate Institute" was established to coordinate his interventions with human efforts, while "super-farmers" learned to cultivate crops in the unique conditions created by his climate stabilization. The experience taught humanity that even the most powerful allies couldn't solve complex problems alone - cooperation between superhuman and human efforts was essential for long-term sustainability.''\<close>

definition narrative_time_travel :: string where
  \<open>narrative_time_travel =
       ''The discovery of time travel technology in 2030 created an unprecedented opportunity to address climate change at its source. Teams of temporal engineers, equipped with quantum-stabilized chronometers, traveled back to key moments in history: 1985 (Chernobyl), 1992 (Rio Earth Summit), and 2008 (financial crisis). They implemented clean energy technologies decades before they were originally developed, creating a cascade of technological breakthroughs that rippled forward through time.''
       @ ''\<newline>\<newline>''
       @ ''The immediate effects were dramatic - by 2040, global temperatures had stabilized at 1.5''
       @ degree_sign
       @ ''C above pre-industrial levels, and carbon emissions plummeted by 60%. However, the temporal interventions created unforeseen consequences. The "temporal pollution" caused by multiple timeline alterations led to the emergence of "chrono-storms" - localized weather anomalies where past and present climate patterns collided. Some regions experienced unexpected climate patterns, with parts of the Sahara receiving monsoon rains while the Amazon experienced desertification.''
       @ ''\<newline>\<newline>''
       @ ''By 2100, humanity had learned that while time travel could solve immediate problems, it created new challenges that required innovative solutions. The "Temporal Climate Institute" was established to monitor and manage chrono-storms, while "temporal farmers" learned to cultivate crops that thrived in the unique conditions created by timeline convergence. The experience taught humanity that the most sustainable solutions were those built in the present, not borrowed from the past.''\<close>

definition narrative_generic :: string where
  \<open>narrative_generic =
       ''This speculative future envisions a world where humanity successfully navigates the climate crisis through a combination of technological innovation, policy reform, and cultural adaptation. The breakthrough came in 2035 when a consortium of scientists, engineers, and indigenous knowledge keepers developed "bio-synthetic fusion" - a revolutionary energy system that combined nuclear fusion with genetically engineered algae that could convert atmospheric CO2 into oxygen while producing clean energy.''
       @ ''\<newline>\<newline>''
       @ ''The immediate effects were transformative. By 2040, carbon emissions had plummeted by 70%, and the "Great Carbon Sequestration" began reversing centuries of atmospheric pollution. However, the rapid deployment of bio-synthetic fusion created unexpected consequences. The genetically modified algae began evolving independently, creating new ecosystems in previously uninhabitable regions. Some areas experienced "oxygen blooms" that made the air too rich for traditional agriculture, while others saw the emergence of "carbon forests" - dense groves of CO2-absorbing trees that grew at unprecedented rates.''
       @ ''\<newline>\<newline>''
       @ ''By 2100, global temperatures had stabilized at 2.5''
       @ degree_sign
       @ ''C above pre-industrial levels''
       @ em_dash
       @ ''still dangerous but manageable. The experience had fundamentally changed how humanity viewed its relationship with the natural world, leading to the emergence of "eco-cities" where human settlements were integrated with the new bio-synthetic ecosystems. While the climate crisis had been severe, it had also catalyzed a new era of human-nature symbiosis, though not without the challenges of managing an increasingly complex and interconnected planetary system.''\<close>

definition narrative_alien :: string where
  \<open>narrative_alien =
       ''In 2027, the arrival of the Zephyrian Collective, a benevolent alien civilization from the Andromeda galaxy, marked the beginning of Earth's most dramatic climate transformation. The Zephyrians, having experienced their own climate crisis millennia ago, arrived with advanced atmospheric purification technology and a deep understanding of planetary climate systems. Their "atmospheric scrubbers" - massive orbital stations that filtered greenhouse gases while releasing oxygen - began working immediately, stabilizing global temperatures within months.''
       @ ''\<newline>\<newline>''
       @ ''The Zephyrian intervention created unprecedented opportunities but also new challenges. Their "bio-synthetic terraforming" technology could restore degraded ecosystems, but it also introduced alien microorganisms that began evolving in Earth's environment. Some regions experienced "zephyrian blooms" - beautiful but potentially invasive alien plant species that could photosynthesize in extreme conditions. The technology transfer created new industries and economic opportunities, but also raised questions about Earth's technological dependency on alien assistance.''
       @ ''\<newline>\<newline>''
       @ ''By 2100, Earth had become a model of climate restoration, with global temperatures stabilized at 1.2''
       @ degree_sign
       @ ''C above pre-industrial levels. The "Zephyrian-Earth Climate Alliance" had been established, creating a new era of interplanetary cooperation. However, the experience had also taught humanity valuable lessons about maintaining technological independence while embracing beneficial external assistance. The alien intervention had saved Earth's climate, but it had also catalyzed a new era of human innovation and self-reliance.''\<close>

definition narrative_fusion_revolution :: string where
  \<open>narrative_fusion_revolution =
       ''The breakthrough in fusion energy technology in 2028, achieved by a collaborative effort between MIT, CERN, and private sector innovators, marked the beginning of Earth's energy revolution. The "Stellarator-7" fusion reactor, capable of producing unlimited clean energy with minimal waste, became operational in 2030, triggering a global energy transformation that would reshape civilization. Within five years, fusion power plants had replaced 80% of fossil fuel infrastructure, leading to a dramatic reduction in carbon emissions and global temperatures stabilizing at 1.9''
       @ degree_sign
       @ ''C above pre-industrial levels.''
       @ ''\<newline>\<newline>''
       @ ''However, the fusion revolution created unexpected consequences that reshaped human society. The abundance of cheap, clean energy led to the emergence of "energy-intensive industries" that consumed massive amounts of power for carbon capture, atmospheric purification, and even weather modification. The "Fusion Climate Control Network" could manipulate regional weather patterns, but this created new geopolitical tensions as nations competed for favorable climate conditions. Some regions experienced "fusion microclimates" where artificial weather systems created ideal growing conditions, leading to agricultural abundance but also new dependencies on energy infrastructure.''
       @ ''\<newline>\<newline>''
       @ ''By 2100, Earth had achieved energy abundance, but the fusion revolution had also created new challenges. The "Global Fusion Energy Council" was established to manage energy distribution and prevent climate manipulation conflicts. While fusion energy had solved the immediate climate crisis, it had also taught humanity that technological solutions required careful governance and consideration of unintended consequences. The experience demonstrated that energy abundance, while beneficial, also required responsible management to ensure long-term sustainability.''\<close>

definition narrative_seed :: string where
  \<open>narrative_seed =
       ''In 2025, humanity achieved what seemed impossible: commercial fusion energy became a reality. The breakthrough came not from massive government programs, but from a convergence of AI-assisted plasma physics, advanced materials science, and a desperate race against climate catastrophe.''
       @ ''\<newline>\<newline>''
       @ ''The immediate effects were transformative. Within five years, fusion plants began replacing coal and gas facilities worldwide. Carbon emissions plummeted by 40% by 2030, buying humanity precious time to implement other climate solutions. The energy abundance sparked a new industrial revolution, with desalination plants proliferating along coastlines, turning arid regions into agricultural breadbaskets.''
       @ ''\<newline>\<newline>''
       @ ''Yet the transition wasn't without its challenges. The fossil fuel industry's collapse created economic upheaval, while energy abundance led to new forms of consumption and waste. By 2100, global temperatures stabilized at 1.8''
       @ degree_sign
       @ ''C above pre-industrial levels''
       @ em_dash
       @ ''still dangerous, but manageable. The fusion revolution had given humanity a fighting chance, though the deeper lesson was clear: technological breakthroughs alone couldn't solve the complex web of social, economic, and environmental challenges that climate change had woven.''\<close>

text \<open>
  \<^verbatim>\<open>initDatabase\<close>: the seed row is inserted when no row has its \<^verbatim>\<open>user_input\<close>;
  its \<^verbatim>\<open>created_at\<close> is the column default \<^verbatim>\<open>CURRENT_TIMESTAMP\<close>, a parameter here.
\<close>

definition initDatabase :: "(json \<Rightarrow> string) \<Rightarrow> string \<Rightarrow> database \<Rightarrow> database" where
  "initDatabase JSON_stringify current_timestamp db =
     (let count = length (filter (\<lambda>r. row_user_input r = seed_user_input) db)
      in if count = 0
         then fst (insert_row db seed_user_input seed_theme (JSON_stringify seed_alt_forecasts)
                     narrative_seed current_timestamp)
         else db)"

section \<open>The keyword fallback generators of the server\<close>

text \<open>
  Both functions take \<^verbatim>\<open>baselineData\<close> and \<^verbatim>\<open>humanImpacts\<close> and use neither; the
  user input is a string. No route of the server calls them.
\<close>

definition forecasts7 :: "real \<Rightarrow> real \<Rightarrow> real \<Rightarrow> real \<Rightarrow> real \<Rightarrow> real \<Rightarrow> real \<Rightarrow> alt_forecasts" where
  "forecasts7 temp deaths refs land pop bio gdp =
     \<lparr>global_temp_2100 = Some temp, carbon_emissions_2100 = None, sea_level_rise_2100 = None,
      death_toll_annual = Some deaths, refugees = Some refs,
      arable_land_loss_percent = Some land, population = Some pop,
      biodiversity_loss_percent = Some bio, gdp_loss_percent = Some gdp\<rparr>"

text \<open>The object literals returned by \<^verbatim>\<open>generateFallbackScenario\<close>, branch by branch.\<close>

definition fallback_fusion :: scenario_draft where
  "fallback_fusion =
     \<lparr>theme = ''A fusion-powered renaissance reshaping civilization's energy landscape'',
      alt_forecasts = forecasts7 1.8 180000 12000000 8 9800000000 22 3,
      narrative = narrative_fusion\<rparr>"

definition fallback_decarbonization :: scenario_draft where
  "fallback_decarbonization =
     \<lparr>theme = ''A rapid decarbonization revolution transforming global infrastructure'',
      alt_forecasts = forecasts7 2.2 250000 15000000 12 9500000000 28 5,
      narrative = narrative_decarbonization\<rparr>"

definition fallback_geoengineering :: scenario_draft where
  "fallback_geoengineering =
     \<lparr>theme = ''A world where climate engineering becomes mainstream, for better or worse'',
      alt_forecasts = forecasts7 1.9 200000 10000000 10 9300000000 30 6,
      narrative = narrative_geoengineering\<rparr>"

definition fallback_superhero :: scenario_draft where
  "fallback_superhero =
     \<lparr>theme = ''A world where Superman's intervention creates both salvation and new challenges, leading to a complex human-superhero society'',
      alt_forecasts = forecasts7 1.8 180000 12000000 8 9300000000 25 4,
      narrative = narrative_superhero\<rparr>"

definition fallback_time_travel :: scenario_draft where
  "fallback_time_travel =
     \<lparr>theme = ''A temporal paradox where past interventions reshape the climate timeline, creating both salvation and unforeseen chaos'',
      alt_forecasts = forecasts7 1.5 150000 8000000 6 9200000000 18 2,
      narrative = narrative_time_travel\<rparr>"

definition fallback_generic :: scenario_draft where
  "fallback_generic =
     \<lparr>theme = ''A future where human ingenuity and cooperation overcome climate challenges, but not without unexpected consequences and new frontiers'',
      alt_forecasts = forecasts7 2.5 350000 20000000 15 9000000000 35 7,
      narrative = narrative_generic\<rparr>"

definition generateFallbackScenario :: "string \<Rightarrow> 'b \<Rightarrow> 'h \<Rightarrow> scenario_draft" where
  "generateFallbackScenario userInput baselineData humanImpacts =
     (let input = toLowerCase userInput
      in if str_includes input ''fusion'' \<or> str_includes input ''energy'' then fallback_fusion
         else if str_includes input ''net-zero'' \<or> str_includes input ''emissions''
                 \<or> str_includes input ''carbon'' then fallback_decarbonization
         else if str_includes input ''geoengineering''
                 \<or> str_includes input ''climate engineering'' then fallback_geoengineering
         else if str_includes input ''superman'' \<or> str_includes input ''hero''
                 \<or> str_includes input ''superhero'' then fallback_superhero
         else if str_includes input ''time travel'' \<or> str_includes input ''time machine''
           then fallback_time_travel
         else fallback_generic)"

definition forecasts9 ::
  "real \<Rightarrow> real \<Rightarrow> real \<Rightarrow> real \<Rightarrow> real \<Rightarrow> real \<Rightarrow> real \<Rightarrow> real \<Rightarrow> real \<Rightarrow> alt_forecasts" where
  "forecasts9 temp carbon sea deaths refs land pop bio gdp =
     \<lparr>global_temp_2100 = Some temp, carbon_emissions_2100 = Some carbon,
      sea_level_rise_2100 = Some sea, death_toll_annual = Some deaths, refugees = Some refs,
      arable_land_loss_percent = Some land, population = Some pop,
      biodiversity_loss_percent = Some bio, gdp_loss_percent = Some gdp\<rparr>"

text \<open>The object literals returned by \<^verbatim>\<open>createUniqueScenarioFromInput\<close>.\<close>

definition unique_superhero :: scenario_draft where
  "unique_superhero =
     \<lparr>theme = ''A world where Superman's intervention creates both salvation and new challenges, leading to a complex human-superhero society'',
      alt_forecasts = forecasts9 1.8 8.5 0.85 180000 12000000 8 9300000000 25 4,
      narrative = narrative_superhero\<rparr>"

definition unique_time_travel :: scenario_draft where
  "unique_time_travel =
     \<lparr>theme = ''A temporal paradox where past interventions reshape the climate timeline, creating both salvation and unforeseen chaos'',
      alt_forecasts = forecasts9 1.5 6.2 0.72 150000 8000000 6 9200000000 18 2,
      narrative = narrative_time_travel\<rparr>"

definition unique_alien :: scenario_draft where
  "unique_alien =
     \<lparr>theme = ''An alien intervention that transforms Earth's climate while creating new challenges of dependency and cultural integration'',
      alt_forecasts = forecasts9 1.2 4.8 0.58 120000 6000000 4 9800000000 15 3,
      narrative = narrative_alien\<rparr>"

definition unique_fusion :: scenario_draft where
  "unique_fusion =
     \<lparr>theme = ''A fusion energy revolution that transforms global energy systems while creating new environmental and social challenges'',
      alt_forecasts = forecasts9 1.9 9.8 0.92 280000 15000000 10 9100000000 28 5,
      narrative = narrative_fusion_revolution\<rparr>"

definition no_match_error :: "string \<Rightarrow> js_error" where
  "no_match_error userInput =
     Error (''Failed to generate AI scenario for: \"'' @ userInput
            @ ''\". The AI system is not working properly. Please try again or contact support.'')"

definition createUniqueScenarioFromInput :: "string \<Rightarrow> 'b \<Rightarrow> 'h \<Rightarrow> js_error + scenario_draft" where
  "createUniqueScenarioFromInput userInput baselineData humanImpacts =
     (let inputLower = toLowerCase userInput
      in if str_includes inputLower ''superman'' \<or> str_includes inputLower ''hero''
            \<or> str_includes inputLower ''superhero'' then Inr unique_superhero
         else if str_includes inputLower ''time travel''
                 \<or> str_includes inputLower ''time machine'' then Inr unique_time_travel
         else if str_includes inputLower ''alien'' \<or> str_includes inputLower ''extraterrestrial''
                 \<or> str_includes inputLower ''ufo'' then Inr unique_alien
         else if str_includes inputLower ''fusion'' \<or> str_includes inputLower ''nuclear''
                 \<or> str_includes inputLower ''energy'' then Inr unique_fusion
         else Inl (no_match_error userInput))"

text \<open>
  The same dispatch written as an ordered table of keyword classes, the first class with
  a keyword in the input winning.
\<close>

definition first_match :: "(string list \<times> 'a) list \<Rightarrow> string \<Rightarrow> 'a option" where
  "first_match table input =
     map_option snd (find (\<lambda>entry. list_ex (str_includes input) (fst entry)) table)"

definition fallback_table :: "(string list \<times> scenario_draft) list" where
  "fallback_table =
     [([''fusion'', ''energy''], fallback_fusion),
      ([''net-zero'', ''emissions'', ''carbon''], fallback_decarbonization),
      ([''geoengineering'', ''climate engineering''], fallback_geoengineering),
      ([''superman'', ''hero'', ''superhero''], fallback_superhero),
      ([''time travel'', ''time machine''], fallback_time_travel)]"

definition unique_table :: "(string list \<times> scenario_draft) list" where
  "unique_table =
     [([''superman'', ''hero'', ''superhero''], unique_superhero),
      ([''time travel'', ''time machine''], unique_time_travel),
      ([''alien'', ''extraterrestrial'', ''ufo''], unique_alien),
      ([''fusion'', ''nuclear'', ''energy''], unique_fusion)]"

text \<open>
  The shape of a baseline, in the words of the data model: four indicator series, each
  with a numeric \<^verbatim>\<open>current\<close> and a \<^verbatim>\<open>forecast\<close> sequence of points with an integer
  \<^verbatim>\<open>year\<close> and a numeric \<^verbatim>\<open>value\<close>.
\<close>

definition point_shaped :: "json \<Rightarrow> bool" where
  "point_shaped v =
     (case member v ''year'' of
        Some (JNum y s) \<Rightarrow> s = 0 \<and> (case member v ''value'' of Some (JNum m t) \<Rightarrow> True | _ \<Rightarrow> False)
      | _ \<Rightarrow> False)"

definition series_shaped :: "json option \<Rightarrow> bool" where
  "series_shaped v =
     (case v of
        Some (JObj fs) \<Rightarrow>
          (case map_of fs ''current'' of
             Some (JNum m s) \<Rightarrow>
               (case map_of fs ''forecast'' of Some (JArr ps) \<Rightarrow> list_all point_shaped ps | _ \<Rightarrow> False)
           | _ \<Rightarrow> False)
      | _ \<Rightarrow> False)"

definition complete_baseline :: "json \<Rightarrow> bool" where
  "complete_baseline v =
     (series_shaped (member v ''global_temp'') \<and> series_shaped (member v ''carbon_emissions'')
      \<and> series_shaped (member v ''sea_level_rise'') \<and> series_shaped (member v ''forest_loss''))"

section \<open>The scenario form of the client\<close>

text \<open>
  Source: \<^verbatim>\<open>WhatIfMode\<close> in \<^verbatim>\<open>Dashboard.tsx\<close>, the first line of its
  \<^verbatim>\<open>generateScenario\<close>: nothing is sent while the trimmed input is empty or the
  baseline data is not loaded. The result is the body of the request that is posted, if any.
\<close>

record human_impacts =
  impacts_death_toll_annual :: real
  impacts_population :: real
  impacts_arable_land_loss_percent :: real
  impacts_refugees :: real
  impacts_gdp_loss_percent :: real
  impacts_biodiversity_loss_percent :: real

record client_post =
  post_userInput :: string
  post_baselineData :: climate_data
  post_humanImpacts :: human_impacts

definition client_generateScenario ::
  "string \<Rightarrow> climate_data option \<Rightarrow> human_impacts option \<Rightarrow> client_post option" where
  "client_generateScenario userInput climateData humanImpacts =
     (if trim userInput = [] then None
      else case climateData of
             None \<Rightarrow> None
           | Some c \<Rightarrow>
               (case humanImpacts of
                  None \<Rightarrow> None
                | Some h \<Rightarrow>
                    Some \<lparr>post_userInput = userInput, post_baselineData = c,
                          post_humanImpacts = h\<rparr>))"

section \<open>A JSON codec\<close>

text \<open>
  An instance of \<^verbatim>\<open>JSON.parse\<close> (\<open>json_decode\<close>) and \<^verbatim>\<open>JSON.stringify\<close>
  (\<open>json_encode\<close>) on JSON texts without \<^verbatim>\<open>\u\<close> escapes, for running the
  handlers on concrete inputs. The recursion of the decoder is bounded by the length of
  the text.
\<close>

definition json_ws :: "char \<Rightarrow> bool" where
  "json_ws c = (c = CHR '' '' \<or> c = CHR 0x09 \<or> c = CHR 0x0A \<or> c = CHR 0x0D)"

definition skip_ws :: "string \<Rightarrow> string" where
  "skip_ws cs = dropWhile json_ws cs"

definition is_digit :: "char \<Rightarrow> bool" where
  "is_digit c = (48 \<le> (of_char c :: nat) \<and> (of_char c :: nat) \<le> 57)"

definition digits_value :: "string \<Rightarrow> int" where
  "digits_value ds = foldl (\<lambda>a c. 10 * a + (of_char c - 48)) 0 ds"

definition unescape :: "char \<Rightarrow> char option" where
  "unescape e =
     (if e = CHR 0x22 \<or> e = CHR 0x5C \<or> e = CHR ''/'' then Some e
      else if e = CHR ''b'' then Some (CHR 0x08)
      else if e = CHR ''f'' then Some (CHR 0x0C)
      else if e = CHR ''n'' then Some (CHR 0x0A)
      else if e = CHR ''r'' then Some (CHR 0x0D)
      else if e = CHR ''t'' then Some (CHR 0x09)
      else None)"

fun parse_chars :: "string \<Rightarrow> string \<Rightarrow> (string \<times> string) option" where
  "parse_chars acc [] = None"
| "parse_chars acc [c] = (if c = CHR 0x22 then Some (rev acc, []) else None)"
| "parse_chars acc (c # e # cs) =
     (if c = CHR 0x22 then Some (rev acc, e # cs)
      else if c = CHR 0x5C then
        (case unescape e of None \<Rightarrow> None | Some d \<Rightarrow> parse_chars (d # acc) cs)
      else if (of_char c :: nat) < 32 then None
      else parse_chars (c # acc) (e # cs))"

definition parse_exponent :: "string \<Rightarrow> ((bool \<times> nat) \<times> string) option" where
  "parse_exponent cs =
     (case cs of
        [] \<Rightarrow> Some ((False, 0), cs)
      | c # r \<Rightarrow>
          if c = CHR ''e'' \<or> c = CHR ''E'' then
            (let neg = (r \<noteq> [] \<and> hd r = CHR ''-'');
                 r' = (if r \<noteq> [] \<and> (hd r = CHR ''-'' \<or> hd r = CHR ''+'') then tl r else r);
                 ds = takeWhile is_digit r'
             in if ds = [] then None else Some ((neg, nat (digits_value ds)), dropWhile is_digit r'))
          else Some ((False, 0), cs))"

definition parse_fraction :: "string \<Rightarrow> (string \<times> string) option" where
  "parse_fraction cs =
     (case cs of
        [] \<Rightarrow> Some ([], cs)
      | c # r \<Rightarrow>
          if c = CHR ''.'' then
            (let ds = takeWhile is_digit r
             in if ds = [] then None else Some (ds, dropWhile is_digit r))
          else Some ([], cs))"

definition parse_number :: "string \<Rightarrow> (json \<times> string) option" where
  "parse_number cs =
     (let neg = (cs \<noteq> [] \<and> hd cs = CHR ''-'');
          cs1 = (if neg then tl cs else cs);
          ip = takeWhile is_digit cs1
      in if ip = [] \<or> (1 < length ip \<and> hd ip = CHR ''0'') then None
         else
           (case parse_fraction (dropWhile is_digit cs1) of
              None \<Rightarrow> None
            | Some (fp, r2) \<Rightarrow>
                (case parse_exponent r2 of
                   None \<Rightarrow> None
                 | Some ((eneg, e), r3) \<Rightarrow>
                     (let m = digits_value (ip @ fp);
                          m' = (if neg then - m else m)
                      in Some (if eneg then jnum m' (length fp + e)
                               else jnum (m' * 10 ^ e) (length fp), r3)))))"

fun parse_value :: "nat \<Rightarrow> string \<Rightarrow> (json \<times> string) option"
  and parse_members :: "nat \<Rightarrow> (string \<times> json) list \<Rightarrow> string \<Rightarrow> (json \<times> string) option"
  and parse_elements :: "nat \<Rightarrow> json list \<Rightarrow> string \<Rightarrow> (json \<times> string) option" where
  "parse_value 0 cs = None"
| "parse_value (Suc n) cs =
     (case skip_ws cs of
        [] \<Rightarrow> None
      | c # r \<Rightarrow>
          if c = CHR ''{'' then
            (if skip_ws r \<noteq> [] \<and> hd (skip_ws r) = CHR ''}'' then Some (JObj [], tl (skip_ws r))
             else parse_members n [] r)
          else if c = CHR ''['' then
            (if skip_ws r \<noteq> [] \<and> hd (skip_ws r) = CHR '']'' then Some (JArr [], tl (skip_ws r))
             else parse_elements n [] r)
          else if c = CHR 0x22 then
            (case parse_chars [] r of None \<Rightarrow> None | Some (s, r') \<Rightarrow> Some (JStr s, r'))
          else if take 4 (c # r) = ''true'' then Some (JBool True, drop 4 (c # r))
          else if take 5 (c # r) = ''false'' then Some (JBool False, drop 5 (c # r))
          else if take 4 (c # r) = ''null'' then Some (JNull, drop 4 (c # r))
          else parse_number (c # r))"
| "parse_members 0 acc cs = None"
| "parse_members (Suc n) acc cs =
     (case skip_ws cs of
        [] \<Rightarrow> None
      | q # r \<Rightarrow>
          if q \<noteq> CHR 0x22 then None
          else
            (case parse_chars [] r of
               None \<Rightarrow> None
             | Some (k, r1) \<Rightarrow>
                 (case skip_ws r1 of
                    [] \<Rightarrow> None
                  | col # r2 \<Rightarrow>
                      if col \<noteq> CHR '':'' then None
                      else
                        (case parse_value n r2 of
                           None \<Rightarrow> None
                         | Some (v, r3) \<Rightarrow>
                             (case skip_ws r3 of
                                [] \<Rightarrow> None
                              | d # r4 \<Rightarrow>
                                  if d = CHR '','' then parse_members n (obj_put k v acc) r4
                                  else if d = CHR ''}'' then Some (JObj (obj_put k v acc), r4)
                                  else None)))))"
| "parse_elements 0 acc cs = None"
| "parse_elements (Suc n) acc cs =
     (case parse_value n cs of
        None \<Rightarrow> None
      | Some (v, r) \<Rightarrow>
          (case skip_ws r of
             [] \<Rightarrow> None
           | d # r' \<Rightarrow>
               if d = CHR '','' then parse_elements n (acc @ [v]) r'
               else if d = CHR '']'' then Some (JArr (acc @ [v]), r')
               else None))"

definition json_decode :: "string \<Rightarrow> json option" where
  "json_decode s =
     (case parse_value (Suc (length s)) s of
        None \<Rightarrow> None
      | Some (v, rest) \<Rightarrow> if skip_ws rest = [] then Some v else None)"

definition show_decimal :: "int \<Rightarrow> nat \<Rightarrow> string" where
  "show_decimal m s =
     (let ds = show_nat \<bar>m\<bar>;
          padded = replicate (Suc s - length ds) (CHR ''0'') @ ds;
          k = length padded - s
      in (if m < 0 then ''-'' else '''')
         @ take k padded @ (if s = 0 then '''' else ''.'' @ drop k padded))"

definition hex_char :: "nat \<Rightarrow> char" where
  "hex_char n = (if n < 10 then char_of (48 + n) else char_of (87 + n))"

definition escape_char :: "char \<Rightarrow> string" where
  "escape_char c =
     (if c = CHR 0x22 then [CHR 0x5C, CHR 0x22]
      else if c = CHR 0x5C then [CHR 0x5C, CHR 0x5C]
      else if c = CHR 0x08 then [CHR 0x5C, CHR ''b'']
      else if c = CHR 0x0C then [CHR 0x5C, CHR ''f'']
      else if c = CHR 0x0A then [CHR 0x5C, CHR ''n'']
      else if c = CHR 0x0D then [CHR 0x5C, CHR ''r'']
      else if c = CHR 0x09 then [CHR 0x5C, CHR ''t'']
      else if (of_char c :: nat) < 32
        then [CHR 0x5C, CHR ''u'', CHR ''0'', CHR ''0'',
              hex_char ((of_char c :: nat) div 16), hex_char ((of_char c :: nat) mod 16)]
      else [c])"

definition quote_string :: "string \<Rightarrow> string" where
  "quote_string s = [CHR 0x22] @ concat (map escape_char s) @ [CHR 0x22]"

fun join_with :: "string \<Rightarrow> string list \<Rightarrow> string" where
  "join_with sep [] = []"
| "join_with sep [x] = x"
| "join_with sep (x # y # ys) = x @ sep @ join_with sep (y # ys)"

fun json_encode :: "json \<Rightarrow> string" where
  "json_encode JNull = ''null''"
| "json_encode (JBool b) = (if b then ''true'' else ''false'')"
| "json_encode (JNum m s) = show_decimal m s"
| "json_encode (JStr s) = quote_string s"
| "json_encode (JArr vs) = ''['' @ join_with '','' (map json_encode vs) @ '']''"
| "json_encode (JObj fs) =
     ''{'' @ join_with '','' (map (\<lambda>kv. quote_string (fst kv) @ '':'' @ json_encode (snd kv)) fs) @ ''}''"

section \<open>The baseline data served to the client\<close>

text \<open>The constant \<^verbatim>\<open>baselineData\<close> of the server, as the client reads it.\<close>

definition server_baselineData :: climate_data where
  "server_baselineData =
     \<lparr>global_temp =
        \<lparr>current = 1.1,
         forecast =
           [\<lparr>point_year = 2024, point_value = 1.1\<rparr>, \<lparr>point_year = 2030, point_value = 1.3\<rparr>,
            \<lparr>point_year = 2040, point_value = 1.6\<rparr>, \<lparr>point_year = 2050, point_value = 2.0\<rparr>,
            \<lparr>point_year = 2060, point_value = 2.4\<rparr>, \<lparr>point_year = 2070, point_value = 2.8\<rparr>,
            \<lparr>point_year = 2080, point_value = 3.2\<rparr>, \<lparr>point_year = 2090, point_value = 3.5\<rparr>,
            \<lparr>point_year = 2100, point_value = 3.8\<rparr>]\<rparr>,
      carbon_emissions =
        \<lparr>current = 36.8,
         forecast =
           [\<lparr>point_year = 2024, point_value = 36.8\<rparr>, \<lparr>point_year = 2030, point_value = 38.2\<rparr>,
            \<lparr>point_year = 2040, point_value = 39.5\<rparr>, \<lparr>point_year = 2050, point_value = 40.1\<rparr>,
            \<lparr>point_year = 2060, point_value = 39.8\<rparr>, \<lparr>point_year = 2070, point_value = 38.5\<rparr>,
            \<lparr>point_year = 2080, point_value = 36.2\<rparr>, \<lparr>point_year = 2090, point_value = 33.1\<rparr>,
            \<lparr>point_year = 2100, point_value = 29.5\<rparr>]\<rparr>,
      sea_level_rise =
        \<lparr>current = 0.22,
         forecast =
           [\<lparr>point_year = 2024, point_value = 0.22\<rparr>, \<lparr>point_year = 2030, point_value = 0.28\<rparr>,
            \<lparr>point_year = 2040, point_value = 0.38\<rparr>, \<lparr>point_year = 2050, point_value = 0.52\<rparr>,
            \<lparr>point_year = 2060, point_value = 0.71\<rparr>, \<lparr>point_year = 2070, point_value = 0.95\<rparr>,
            \<lparr>point_year = 2080, point_value = 1.24\<rparr>, \<lparr>point_year = 2090, point_value = 1.58\<rparr>,
            \<lparr>point_year = 2100, point_value = 1.95\<rparr>]\<rparr>,
      forest_loss =
        \<lparr>current = 10.1,
         forecast =
           [\<lparr>point_year = 2024, point_value = 10.1\<rparr>, \<lparr>point_year = 2030, point_value = 12.3\<rparr>,
            \<lparr>point_year = 2040, point_value = 15.1\<rparr>, \<lparr>point_year = 2050, point_value = 18.2\<rparr>,
            \<lparr>point_year = 2060, point_value = 20.8\<rparr>, \<lparr>point_year = 2070, point_value = 22.5\<rparr>,
            \<lparr>point_year = 2080, point_value = 23.8\<rparr>, \<lparr>point_year = 2090, point_value = 24.5\<rparr>,
            \<lparr>point_year = 2100, point_value = 25.0\<rparr>]\<rparr>\<rparr>"

section \<open>Sample data\<close>

text \<open>A completion text of the requested shape and the value it denotes.\<close>

definition sample_object :: string where
  "sample_object = ''{\"theme\":\"A calm century\",\"alt_forecasts\":{\"global_temp_2100\":2.1},\"narrative\":\"Slow change.\"}''"

definition sample_forecasts :: json where
  "sample_forecasts = JObj [(''global_temp_2100'', JNum 21 1)]"

definition sample_value :: json where
  "sample_value =
     JObj [(''theme'', JStr ''A calm century''),
           (''alt_forecasts'', sample_forecasts),
           (''narrative'', JStr ''Slow change.'')]"


text \<open>Sample values of the clock and of \<^verbatim>\<open>CURRENT_TIMESTAMP\<close>.\<close>

definition sample_now :: string where
  "sample_now = ''2025-06-01T12:00:00.000Z''"

definition sample_timestamp :: string where
  "sample_timestamp = ''2025-06-01 11:59:00''"

text \<open>The request that \<^verbatim>\<open>generateScenario\<close> sends for the default baseline and impacts.\<close>

definition default_request :: "json option \<Rightarrow> completion_request" where
  "default_request u =
     \<lparr>completion_model = ''gpt-3.5-turbo'',
      completion_prompt =
        \<lparr>prompt_userInput = u, prompt_global_temp = Some (JNum 11 1),
         prompt_sea_level_rise = Some (JNum 22 2), prompt_death_toll_annual = JNum 500000 0,
         prompt_refugees = JNum 25000000 0, prompt_gdp_loss_percent = Some (JNum 8 0)\<rparr>,
      completion_max_tokens = 1200, completion_temperature = 0.9\<rparr>"

text \<open>The seed row, with the id and the timestamp it was given.\<close>

definition seed_row :: "(json \<Rightarrow> string) \<Rightarrow> nat \<Rightarrow> string \<Rightarrow> scenario_row" where
  "seed_row JSON_stringify ident created_at =
     \<lparr>row_id = ident, row_user_input = seed_user_input, row_theme = seed_theme,
      row_alt_forecasts = JSON_stringify seed_alt_forecasts, row_narrative = narrative_seed,
      row_created_at = created_at\<rparr>"

definition has_seed :: "(json \<Rightarrow> string) \<Rightarrow> database \<Rightarrow> bool" where
  "has_seed JSON_stringify db =
     list_ex (\<lambda>r. row_user_input r = seed_user_input
                 \<and> row_alt_forecasts r = JSON_stringify seed_alt_forecasts) db"

text \<open>A baseline override with one series only, and that one without a forecast.\<close>

definition partial_baseline :: json where
  "partial_baseline = JObj [(''global_temp'', JObj [(''current'', JNum 11 1)])]"

section \<open>Properties of the forecast constraint engine\<close>



lemma map_indexed_length [simp]: "length (map_indexed f xs) = length xs"
  by (simp add: map_indexed_def)










section \<open>Properties of the string functions\<close>

lemma white_space_entry:
  "w \<in> set white_space \<Longrightarrow> w \<noteq> [] \<and> CHR ''{'' \<notin> set w \<and> CHR ''}'' \<notin> set w"
  by (auto simp: white_space_def)

lemma leading_space_Some:
  "leading_space s = Some w \<Longrightarrow> w \<in> set white_space \<and> prefix w s"
  by (auto simp: leading_space_def find_Some_iff)

lemma trailing_space_Some:
  "trailing_space s = Some w \<Longrightarrow> w \<in> set white_space \<and> suffix w s"
  by (auto simp: trailing_space_def find_Some_iff)

lemma trimStart_decomposition:
  "\<exists>ws. set ws \<subseteq> set white_space \<and> s = concat ws @ trimStart s"
proof (induction s rule: trimStart.induct)
  case (1 s)
  show ?case
  proof (cases "leading_space s")
    case None
    then have "s = concat [] @ trimStart s"
      by (simp add: trimStart.simps)
    then show ?thesis
      by (metis empty_subsetI list.set(1))
  next
    case (Some w)
    from leading_space_Some [OF Some] have w: "w \<in> set white_space" and p: "prefix w s"
      by simp_all
    from p have s: "s = w @ drop (length w) s"
      by (auto simp: prefix_def)
    from 1 [OF Some] obtain ws where ws: "set ws \<subseteq> set white_space"
      and d: "drop (length w) s = concat ws @ trimStart (drop (length w) s)"
      by blast
    have t: "trimStart s = trimStart (drop (length w) s)"
      using Some by (subst trimStart.simps) simp
    have "s = concat (w # ws) @ trimStart s"
      using s d t by (metis append.assoc concat.simps(2))
    moreover have "set (w # ws) \<subseteq> set white_space"
      using w ws by simp
    ultimately show ?thesis
      by blast
  qed
qed

lemma trimEnd_decomposition:
  "\<exists>ws. set ws \<subseteq> set white_space \<and> s = trimEnd s @ concat ws"
proof (induction s rule: trimEnd.induct)
  case (1 s)
  show ?case
  proof (cases "trailing_space s")
    case None
    then have "s = trimEnd s @ concat []"
      by (simp add: trimEnd.simps)
    then show ?thesis
      by (metis empty_subsetI list.set(1))
  next
    case (Some w)
    from trailing_space_Some [OF Some] have w: "w \<in> set white_space" and p: "suffix w s"
      by simp_all
    from p have s: "s = take (length s - length w) s @ w"
      by (auto simp: suffix_def)
    from 1 [OF Some] obtain ws where ws: "set ws \<subseteq> set white_space"
      and d: "take (length s - length w) s
                = trimEnd (take (length s - length w) s) @ concat ws"
      by blast
    have t: "trimEnd s = trimEnd (take (length s - length w) s)"
      using Some by (subst trimEnd.simps) simp
    have "concat (ws @ [w]) = concat ws @ w"
      by simp
    then have "s = trimEnd s @ concat (ws @ [w])"
      using s d t by (metis append.assoc)
    moreover have "set (ws @ [w]) \<subseteq> set white_space"
      using w ws by simp
    ultimately show ?thesis
      by blast
  qed
qed

lemma leading_space_trimStart: "leading_space (trimStart s) = None"
proof (induction s rule: trimStart.induct)
  case (1 s)
  show ?case
  proof (cases "leading_space s")
    case None
    then show ?thesis by (subst trimStart.simps) simp
  next
    case (Some w)
    then show ?thesis using 1 [OF Some] by (subst trimStart.simps) simp
  qed
qed

lemma trailing_space_trimEnd: "trailing_space (trimEnd s) = None"
proof (induction s rule: trimEnd.induct)
  case (1 s)
  show ?case
  proof (cases "trailing_space s")
    case None
    then show ?thesis by (subst trimEnd.simps) simp
  next
    case (Some w)
    then show ?thesis using 1 [OF Some] by (subst trimEnd.simps) simp
  qed
qed

lemma leading_space_trimEnd:
  assumes "leading_space s = None"
  shows "leading_space (trimEnd s) = None"
proof -
  from trimEnd_decomposition [of s] have p: "prefix (trimEnd s) s"
    by (metis prefixI)
  have "\<not> prefix w (trimEnd s)" if "w \<in> set white_space" for w
    using assms that p by (auto simp: leading_space_def find_None_iff dest: prefix_order.trans)
  then show ?thesis
    by (simp add: leading_space_def find_None_iff)
qed

lemma trim_decomposition:
  "\<exists>ws ws'. set ws \<subseteq> set white_space \<and> set ws' \<subseteq> set white_space
     \<and> s = concat ws @ trim s @ concat ws'"
proof -
  obtain ws where ws: "set ws \<subseteq> set white_space" and a: "s = concat ws @ trimStart s"
    using trimStart_decomposition by blast
  obtain ws' where ws': "set ws' \<subseteq> set white_space"
    and b: "trimStart s = trimEnd (trimStart s) @ concat ws'"
    using trimEnd_decomposition by blast
  have "s = concat ws @ trim s @ concat ws'"
    using a b by (simp add: trim_def)
  with ws ws' show ?thesis
    by blast
qed

lemma trim_no_space: "leading_space (trim s) = None \<and> trailing_space (trim s) = None"
  by (simp add: trim_def trailing_space_trimEnd leading_space_trimEnd leading_space_trimStart)

lemma prefix_before:
  "prefix w (pre @ c # rest) \<Longrightarrow> c \<notin> set w \<Longrightarrow> prefix w pre"
  by (auto simp: prefix_append prefix_Cons)

lemma suffix_after:
  "suffix w (front @ c # post) \<Longrightarrow> c \<notin> set w \<Longrightarrow> suffix w post"
  by (auto simp: suffix_append suffix_Cons)

lemma trimStart_before_brace:
  assumes "c = CHR ''{'' \<or> c = CHR ''}''"
  shows "\<exists>pre'. trimStart (pre @ c # rest) = pre' @ c # rest \<and> set pre' \<subseteq> set pre"
proof (induction "pre @ c # rest" arbitrary: pre rule: trimStart.induct)
  case 1
  show ?case
  proof (cases "leading_space (pre @ c # rest)")
    case None
    then have "trimStart (pre @ c # rest) = pre @ c # rest"
      by (subst trimStart.simps) simp
    then show ?thesis
      by blast
  next
    case (Some w)
    from leading_space_Some [OF Some] white_space_entry [of w] assms
    have "prefix w (pre @ c # rest)" and "c \<notin> set w"
      by auto
    then have "prefix w pre"
      by (rule prefix_before)
    then obtain pre2 where pre: "pre = w @ pre2"
      by (auto simp: prefix_def)
    then have d: "drop (length w) (pre @ c # rest) = pre2 @ c # rest"
      by simp
    from 1 [OF Some d] obtain pre' where
      "trimStart (pre2 @ c # rest) = pre' @ c # rest" and "set pre' \<subseteq> set pre2"
      by blast
    moreover have "trimStart (pre @ c # rest) = trimStart (pre2 @ c # rest)"
      using Some d by (subst trimStart.simps) simp
    ultimately show ?thesis
      using pre by auto
  qed
qed

lemma trimEnd_after_brace:
  assumes "c = CHR ''{'' \<or> c = CHR ''}''"
  shows "\<exists>post'. trimEnd (front @ c # post) = front @ c # post' \<and> set post' \<subseteq> set post"
proof (induction "front @ c # post" arbitrary: post rule: trimEnd.induct)
  case 1
  show ?case
  proof (cases "trailing_space (front @ c # post)")
    case None
    then have "trimEnd (front @ c # post) = front @ c # post"
      by (subst trimEnd.simps) simp
    then show ?thesis
      by blast
  next
    case (Some w)
    from trailing_space_Some [OF Some] white_space_entry [of w] assms
    have "suffix w (front @ c # post)" and "c \<notin> set w"
      by auto
    then have "suffix w post"
      by (rule suffix_after)
    then obtain post2 where post: "post = post2 @ w"
      by (auto simp: suffix_def)
    then have d: "take (length (front @ c # post) - length w) (front @ c # post)
                    = front @ c # post2"
      by simp
    from 1 [OF Some d] obtain post' where
      "trimEnd (front @ c # post2) = front @ c # post'" and "set post' \<subseteq> set post2"
      by blast
    moreover have "trimEnd (front @ c # post) = trimEnd (front @ c # post2)"
      using Some d by (subst trimEnd.simps) simp
    ultimately show ?thesis
      using post by auto
  qed
qed

lemma trim_embedded:
  "\<exists>pre' post'. trim (pre @ CHR ''{'' # body @ CHR ''}'' # post)
                   = pre' @ CHR ''{'' # body @ CHR ''}'' # post'
     \<and> set pre' \<subseteq> set pre \<and> set post' \<subseteq> set post"
proof -
  obtain pre' where a: "trimStart (pre @ CHR ''{'' # body @ CHR ''}'' # post)
                          = pre' @ CHR ''{'' # body @ CHR ''}'' # post"
    and pre': "set pre' \<subseteq> set pre"
    using trimStart_before_brace [of "CHR ''{''" pre "body @ CHR ''}'' # post"] by auto
  obtain post' where b: "trimEnd ((pre' @ CHR ''{'' # body) @ CHR ''}'' # post)
                           = (pre' @ CHR ''{'' # body) @ CHR ''}'' # post'"
    and post': "set post' \<subseteq> set post"
    using trimEnd_after_brace [of "CHR ''}''" "pre' @ CHR ''{'' # body" post] by auto
  have "trim (pre @ CHR ''{'' # body @ CHR ''}'' # post)
          = pre' @ CHR ''{'' # body @ CHR ''}'' # post'"
    using a b by (simp add: trim_def)
  with pre' post' show ?thesis
    by blast
qed

lemma first_units_ascii:
  "\<forall>c\<in>set s. (of_char c :: int) < 128 \<Longrightarrow> first_units n s = take n s"
proof (induction s arbitrary: n)
  case Nil
  show ?case by simp
next
  case (Cons c cs)
  then have "utf8_width c = 1"
    by (simp add: utf8_width_def)
  with Cons show ?case
    by (cases n) simp_all
qed

section \<open>Properties of the response parser\<close>

lemma match_braces_embedded:
  assumes "CHR ''{'' \<notin> set pre" and "CHR ''}'' \<notin> set post"
  shows "match_braces (pre @ CHR ''{'' # body @ CHR ''}'' # post)
           = Some (CHR ''{'' # body @ [CHR ''}''])"
proof -
  have "dropWhile (\<lambda>c. c \<noteq> CHR ''{'') pre = []"
    using assms(1) by (auto simp: dropWhile_eq_Nil_conv)
  then have front_eq:
    "dropWhile (\<lambda>c. c \<noteq> CHR ''{'') (pre @ CHR ''{'' # body @ CHR ''}'' # post)
       = CHR ''{'' # body @ CHR ''}'' # post"
    by (simp add: dropWhile_append3)
  have "dropWhile (\<lambda>c. c \<noteq> CHR ''}'') (rev post) = []"
    using assms(2) by (auto simp: dropWhile_eq_Nil_conv)
  then have rear_eq:
    "dropWhile (\<lambda>c. c \<noteq> CHR ''}'') (rev post @ CHR ''}'' # rev body @ [CHR ''{''])
       = CHR ''}'' # rev body @ [CHR ''{'']"
    by (simp add: dropWhile_append3)
  show ?thesis
    by (simp add: match_braces_def Let_def front_eq rear_eq)
qed

lemma match_braces_Some:
  assumes "match_braces s = Some m"
  shows "\<exists>pre post. s = pre @ m @ post \<and> CHR ''{'' \<notin> set pre \<and> CHR ''}'' \<notin> set post
           \<and> m \<noteq> [] \<and> hd m = CHR ''{'' \<and> last m = CHR ''}''"
proof -
  let ?open = "\<lambda>c. c \<noteq> CHR ''{''" and ?close = "\<lambda>c. c \<noteq> CHR ''}''"
  let ?r = "dropWhile ?open s"
  from assms have mem: "CHR ''}'' \<in> set ?r" and m: "m = rev (dropWhile ?close (rev ?r))"
    by (auto simp: match_braces_def Let_def split: if_splits)
  have s: "s = takeWhile ?open s @ ?r" by simp
  have r: "rev ?r = takeWhile ?close (rev ?r) @ dropWhile ?close (rev ?r)" by simp
  then have r': "?r = m @ rev (takeWhile ?close (rev ?r))"
    unfolding m by (metis rev_append rev_rev_ident)
  have ne: "dropWhile ?close (rev ?r) \<noteq> []"
    using mem by (simp add: dropWhile_eq_Nil_conv) 
  then have mne: "m \<noteq> []" by (simp add: m)
  have hdm: "hd ?r = CHR ''{''"
    using mem hd_dropWhile [of ?open s] by (metis empty_iff list.set(1))
  have "hd m = hd ?r"
    using r' mne by (metis hd_append2)
  moreover have "last m = hd (dropWhile ?close (rev ?r))"
    using ne by (simp add: m last_rev)
  moreover have "hd (dropWhile ?close (rev ?r)) = CHR ''}''"
    using ne hd_dropWhile [of ?close "rev ?r"] by blast
  moreover have "CHR ''{'' \<notin> set (takeWhile ?open s)"
    by (auto dest: set_takeWhileD)
  moreover have "CHR ''}'' \<notin> set (rev (takeWhile ?close (rev ?r)))"
    by (auto dest: set_takeWhileD)
  moreover have "s = takeWhile ?open s @ m @ rev (takeWhile ?close (rev ?r))"
    using s r' by simp
  ultimately show ?thesis
    using mne hdm by metis
qed

lemma match_braces_None:
  "match_braces s = None \<Longrightarrow> CHR ''}'' \<notin> set (dropWhile (\<lambda>c. c \<noteq> CHR ''{'') s)"
  by (auto simp: match_braces_def Let_def split: if_splits)

lemma default_prompt:
  "build_prompt u default_baselineData default_humanImpacts
     = Inr \<lparr>prompt_userInput = u, prompt_global_temp = Some (JNum 11 1),
            prompt_sea_level_rise = Some (JNum 22 2),
            prompt_death_toll_annual = JNum 500000 0, prompt_refugees = JNum 25000000 0,
            prompt_gdp_loss_percent = Some (JNum 8 0)\<rparr>"
  by (simp add: build_prompt_def read_prop_def receiver_def default_baselineData_def
      default_humanImpacts_def)

text \<open>
  Claim C3 as stated fails: for a completion text with two brace-delimited objects the
  first object is not used. The brace pattern matches from the first opening brace to the
  last closing brace, across both objects; that span does not decode, and the call fails
  although the first object alone decodes.
\<close>

theorem two_objects_counterexample:
  "json_decode ''{\"a\":1}'' = Some (JObj [(''a'', JNum 1 0)])
   \<and> match_braces (trim ''{\"a\":1} and {\"b\":2}'') = Some ''{\"a\":1} and {\"b\":2}''
   \<and> fst (generateScenario json_decode (\<lambda>request. Inr ''{\"a\":1} and {\"b\":2}'')
            (Some (JStr ''What if the oceans calm?'')) default_baselineData default_humanImpacts)
     = Inl (Error ''OpenAI API error: AI generated invalid JSON. Response: {\"a\":1} and {\"b\":2}...'')"
proof (intro conjI)
  show "json_decode ''{\"a\":1}'' = Some (JObj [(''a'', JNum 1 0)])"
    by code_simp
  show "match_braces (trim ''{\"a\":1} and {\"b\":2}'') = Some ''{\"a\":1} and {\"b\":2}''"
    by code_simp
  have "rethrow (parse_response json_decode (trim ''{\"a\":1} and {\"b\":2}''))
          = Inl (Error ''OpenAI API error: AI generated invalid JSON. Response: {\"a\":1} and {\"b\":2}...'')"
    by code_simp
  then show "fst (generateScenario json_decode (\<lambda>request. Inr ''{\"a\":1} and {\"b\":2}'')
            (Some (JStr ''What if the oceans calm?'')) default_baselineData default_humanImpacts)
     = Inl (Error ''OpenAI API error: AI generated invalid JSON. Response: {\"a\":1} and {\"b\":2}...'')"
    by (simp add: generateScenario_def default_prompt Let_def del: append.simps)
qed

text \<open>
  Claim C3, amended. The completion text is trimmed: white space and line terminators,
  and nothing else, are taken off both ends until none is left there. The parser first
  decodes the whole trimmed text and returns the value on success. On failure it decodes
  the one match of the brace pattern and nothing else: the substring from the first
  opening brace to the last closing brace of the trimmed text, which spans every
  brace-delimited object of the text. When that decode fails, or there is no such
  substring, the call fails with an \<^verbatim>\<open>Error\<close> whose message carries the first 200 code
  units of the trimmed text; for a text of ASCII characters these are its first 200
  characters.
\<close>

theorem response_parser_two_phase:
  assumes prompt: "build_prompt userInput b h = Inr p"
    and answer: "openai \<lparr>completion_model = ''gpt-3.5-turbo'', completion_prompt = p,
                         completion_max_tokens = 1200, completion_temperature = 0.9\<rparr>
                   = Inr content"
  shows "(\<exists>ws ws'. set ws \<subseteq> set white_space \<and> set ws' \<subseteq> set white_space
            \<and> content = concat ws @ trim content @ concat ws')
       \<and> leading_space (trim content) = None
       \<and> trailing_space (trim content) = None
       \<and> (\<forall>v. JSON_parse (trim content) = Some v \<longrightarrow>
            fst (generateScenario JSON_parse openai userInput b h) = Inr v)
       \<and> (JSON_parse (trim content) = None \<longrightarrow>
            (\<forall>m. match_braces (trim content) = Some m \<longrightarrow>
               (\<exists>pre post. trim content = pre @ m @ post \<and> CHR ''{'' \<notin> set pre
                  \<and> CHR ''}'' \<notin> set post \<and> hd m = CHR ''{'' \<and> last m = CHR ''}'')
               \<and> (\<forall>v. JSON_parse m = Some v \<longrightarrow>
                      fst (generateScenario JSON_parse openai userInput b h) = Inr v)
               \<and> (JSON_parse m = None \<longrightarrow>
                      fst (generateScenario JSON_parse openai userInput b h)
                        = Inl (Error (''OpenAI API error: AI generated invalid JSON. Response: ''
                                      @ first_units 200 (trim content) @ ''...''))))
            \<and> (match_braces (trim content) = None \<longrightarrow>
                 CHR ''}'' \<notin> set (dropWhile (\<lambda>c. c \<noteq> CHR ''{'') (trim content))
                 \<and> fst (generateScenario JSON_parse openai userInput b h)
                     = Inl (Error (''OpenAI API error: AI did not generate valid JSON. Response: ''
                                   @ first_units 200 (trim content) @ ''...''))))
       \<and> ((\<forall>c\<in>set content. (of_char c :: int) < 128) \<longrightarrow>
            first_units 200 (trim content) = take 200 (trim content))"
proof -
  have run: "fst (generateScenario JSON_parse openai userInput b h)
               = rethrow (parse_response JSON_parse (trim content))"
    using prompt answer by (simp add: generateScenario_def Let_def)
  have direct: "\<forall>v. JSON_parse (trim content) = Some v \<longrightarrow>
                  fst (generateScenario JSON_parse openai userInput b h) = Inr v"
    by (simp add: run parse_response_def rethrow_def)
  have lenient: "\<forall>m. match_braces (trim content) = Some m \<longrightarrow>
                   (\<exists>pre post. trim content = pre @ m @ post \<and> CHR ''{'' \<notin> set pre
                      \<and> CHR ''}'' \<notin> set post \<and> hd m = CHR ''{'' \<and> last m = CHR ''}'')
                   \<and> (\<forall>v. JSON_parse m = Some v \<longrightarrow>
                          fst (generateScenario JSON_parse openai userInput b h) = Inr v)
                   \<and> (JSON_parse m = None \<longrightarrow>
                          fst (generateScenario JSON_parse openai userInput b h)
                            = Inl (Error (''OpenAI API error: AI generated invalid JSON. Response: ''
                                          @ first_units 200 (trim content) @ ''...'')))"
    if none: "JSON_parse (trim content) = None"
  proof (intro allI impI conjI)
    fix m assume m: "match_braces (trim content) = Some m"
    from match_braces_Some [OF m]
    show "\<exists>pre post. trim content = pre @ m @ post \<and> CHR ''{'' \<notin> set pre
            \<and> CHR ''}'' \<notin> set post \<and> hd m = CHR ''{'' \<and> last m = CHR ''}''"
      by blast
    show "fst (generateScenario JSON_parse openai userInput b h) = Inr v"
      if "JSON_parse m = Some v" for v
      using that none m by (simp add: run parse_response_def rethrow_def)
    show "fst (generateScenario JSON_parse openai userInput b h)
            = Inl (Error (''OpenAI API error: AI generated invalid JSON. Response: ''
                          @ first_units 200 (trim content) @ ''...''))"
      if "JSON_parse m = None"
      using that none m by (simp add: run parse_response_def rethrow_def)
  qed
  have nomatch: "CHR ''}'' \<notin> set (dropWhile (\<lambda>c. c \<noteq> CHR ''{'') (trim content))
               \<and> fst (generateScenario JSON_parse openai userInput b h)
                   = Inl (Error (''OpenAI API error: AI did not generate valid JSON. Response: ''
                                 @ first_units 200 (trim content) @ ''...''))"
    if none: "JSON_parse (trim content) = None" and m: "match_braces (trim content) = None"
    using none m match_braces_None [OF m]
    by (simp add: run parse_response_def rethrow_def)
  have ascii: "first_units 200 (trim content) = take 200 (trim content)"
    if "\<forall>c\<in>set content. (of_char c :: int) < 128"
  proof (rule first_units_ascii)
    obtain ws ws' where "content = concat ws @ trim content @ concat ws'"
      using trim_decomposition by blast
    then have "set (trim content) \<subseteq> set content"
      by (metis Un_upper1 Un_upper2 set_append subset_trans)
    with that show "\<forall>c\<in>set (trim content). (of_char c :: int) < 128"
      by blast
  qed
  show ?thesis
    using trim_decomposition [of content] trim_no_space [of content] direct lenient nomatch ascii
    by blast
qed

lemma decode_sample: "json_decode sample_object = Some sample_value"
  by code_simp

lemma trim_t1:
  "trim ([CHR 0x0B, CHR '' ''] @ sample_object @ [CHR 0xC2, CHR 0xA0, CHR 0x0A]) = sample_object"
  by code_simp

lemma trim_t2: "trim (''Here is your scenario: '' @ sample_object @ '' Enjoy!'')
   = ''Here is your scenario: '' @ sample_object @ '' Enjoy!''"
  by code_simp

lemma decode_t2: "json_decode (''Here is your scenario: '' @ sample_object @ '' Enjoy!'') = None"
  by code_simp

lemma match_t2: "match_braces (''Here is your scenario: '' @ sample_object @ '' Enjoy!'') = Some sample_object"
  by code_simp

lemma trim_t3:
  "trim ([CHR 0x09, CHR 0xC2, CHR 0xA0] @ ''not json at all'' @ [CHR 0xE2, CHR 0x80, CHR 0xA8, CHR '' ''])
     = ''not json at all''"
  by code_simp

lemma decode_t3: "json_decode ''not json at all'' = None"
  by code_simp

lemma match_t3: "match_braces ''not json at all'' = None"
  by code_simp

lemma units_t3: "first_units 200 ''not json at all'' = ''not json at all''"
  by code_simp

lemma trim_t4: "trim ''  {not json} at all '' = ''{not json} at all''"
  by code_simp

lemma decode_t4: "json_decode ''{not json} at all'' = None"
  by code_simp

lemma match_t4: "match_braces ''{not json} at all'' = Some ''{not json}''"
  by code_simp

lemma decode_t4m: "json_decode ''{not json}'' = None"
  by code_simp

lemma units_t4: "first_units 200 ''{not json} at all'' = ''{not json} at all''"
  by code_simp

theorem response_parser_two_phase_witness:
  "fst (generateScenario json_decode
          (\<lambda>request. Inr ([CHR 0x0B, CHR '' ''] @ sample_object @ [CHR 0xC2, CHR 0xA0, CHR 0x0A]))
          (Some (JStr ''What if the oceans calm?'')) default_baselineData default_humanImpacts)
     = Inr sample_value
   \<and> fst (generateScenario json_decode
            (\<lambda>request. Inr (''Here is your scenario: '' @ sample_object @ '' Enjoy!''))
            (Some (JStr ''What if the oceans calm?'')) default_baselineData default_humanImpacts)
     = Inr sample_value
   \<and> fst (generateScenario json_decode
            (\<lambda>request. Inr ([CHR 0x09, CHR 0xC2, CHR 0xA0] @ ''not json at all''
                             @ [CHR 0xE2, CHR 0x80, CHR 0xA8, CHR '' '']))
            (Some (JStr ''What if the oceans calm?'')) default_baselineData default_humanImpacts)
     = Inl (Error ''OpenAI API error: AI did not generate valid JSON. Response: not json at all...'')
   \<and> fst (generateScenario json_decode (\<lambda>request. Inr ''  {not json} at all '')
            (Some (JStr ''What if the oceans calm?'')) default_baselineData default_humanImpacts)
     = Inl (Error ''OpenAI API error: AI generated invalid JSON. Response: {not json} at all...'')"
proof -
  let ?u = "Some (JStr ''What if the oceans calm?'')"
  let ?s1 = "[CHR 0x0B, CHR '' ''] @ sample_object @ [CHR 0xC2, CHR 0xA0, CHR 0x0A]"
  let ?s2 = "''Here is your scenario: '' @ sample_object @ '' Enjoy!''"
  let ?s3 = "[CHR 0x09, CHR 0xC2, CHR 0xA0] @ ''not json at all''
               @ [CHR 0xE2, CHR 0x80, CHR 0xA8, CHR '' '']"
  let ?s4 = "''  {not json} at all ''"
  note p = default_prompt [of ?u]
  have a: "(\<lambda>request::completion_request. Inr s :: string + string)
              \<lparr>completion_model = ''gpt-3.5-turbo'', completion_prompt = q,
               completion_max_tokens = 1200, completion_temperature = 0.9\<rparr>
            = Inr s" for q s
    by simp
  note direct = conjunct2 [THEN conjunct2, THEN conjunct2, THEN conjunct1]
  note lenient = conjunct2 [THEN conjunct2, THEN conjunct2, THEN conjunct2, THEN conjunct1]
  from response_parser_two_phase [OF p a [of ?s1], of json_decode, THEN direct,
      unfolded trim_t1 decode_sample]
  have c1: "fst (generateScenario json_decode (\<lambda>request. Inr ?s1)
                  ?u default_baselineData default_humanImpacts) = Inr sample_value"
    by simp
  from response_parser_two_phase [OF p a [of ?s2], of json_decode, THEN lenient,
      unfolded trim_t2 decode_t2 match_t2]
  have c2: "fst (generateScenario json_decode (\<lambda>request. Inr ?s2)
                  ?u default_baselineData default_humanImpacts) = Inr sample_value"
    by (simp add: decode_sample)
  from response_parser_two_phase [OF p a [of ?s3], of json_decode, THEN lenient,
      unfolded trim_t3 decode_t3 match_t3 units_t3]
  have c3: "fst (generateScenario json_decode (\<lambda>request. Inr ?s3)
                  ?u default_baselineData default_humanImpacts)
              = Inl (Error ''OpenAI API error: AI did not generate valid JSON. Response: not json at all...'')"
    by simp
  from response_parser_two_phase [OF p a [of ?s4], of json_decode, THEN lenient,
      unfolded trim_t4 decode_t4 match_t4 units_t4]
  have c4: "fst (generateScenario json_decode (\<lambda>request. Inr ?s4)
                  ?u default_baselineData default_humanImpacts)
              = Inl (Error ''OpenAI API error: AI generated invalid JSON. Response: {not json} at all...'')"
    by (simp add: decode_t4m)
  from c1 c2 c3 c4 show ?thesis by simp
qed

text \<open>
  Claim C7, amended. Let the completion text be the serialization of a record between a
  prefix without an opening brace and a suffix without a closing brace, where the
  serialization is an object text that \<^verbatim>\<open>JSON.parse\<close> decodes to the record, and the
  whole trimmed text either does not decode or decodes to the record. Then the parser
  returns the record.
\<close>

theorem parser_round_trip_brace_free:
  assumes prompt: "build_prompt userInput b h = Inr p"
    and answer: "openai \<lparr>completion_model = ''gpt-3.5-turbo'', completion_prompt = p,
                         completion_max_tokens = 1200, completion_temperature = 0.9\<rparr>
                   = Inr (pre @ JSON_stringify r @ post)"
    and round_trip: "JSON_parse (JSON_stringify r) = Some r"
    and object: "JSON_stringify r = CHR ''{'' # body @ [CHR ''}'']"
    and pre: "CHR ''{'' \<notin> set pre"
    and post: "CHR ''}'' \<notin> set post"
    and direct: "JSON_parse (trim (pre @ JSON_stringify r @ post)) = None
                 \<or> JSON_parse (trim (pre @ JSON_stringify r @ post)) = Some r"
  shows "fst (generateScenario JSON_parse openai userInput b h) = Inr r"
proof -
  let ?s = "JSON_stringify r"
  let ?t = "trim (pre @ ?s @ post)"
  have run: "fst (generateScenario JSON_parse openai userInput b h)
               = rethrow (parse_response JSON_parse ?t)"
    using prompt answer by (simp add: generateScenario_def Let_def)
  obtain pre' post' where t: "?t = pre' @ CHR ''{'' # body @ CHR ''}'' # post'"
    and pre': "set pre' \<subseteq> set pre" and post': "set post' \<subseteq> set post"
    using trim_embedded [of pre body post] by (auto simp: object)
  have "CHR ''{'' \<notin> set pre'"
    using pre pre' by blast
  moreover have "CHR ''}'' \<notin> set post'"
    using post post' by blast
  ultimately have m: "match_braces ?t = Some ?s"
    unfolding t by (simp add: object match_braces_embedded)
  from direct show ?thesis
  proof
    assume "JSON_parse ?t = None"
    then show ?thesis
      using m round_trip by (simp add: run parse_response_def rethrow_def)
  next
    assume "JSON_parse ?t = Some r"
    then show ?thesis
      by (simp add: run parse_response_def rethrow_def)
  qed
qed


lemma encode_seed:
  "json_encode seed_alt_forecasts
     = CHR ''{'' # ''\"global_temp_2100\":1.8,\"death_toll_annual\":180000,\"refugees\":12000000,\"arable_land_loss_percent\":8,\"population\":9800000000,\"biodiversity_loss_percent\":22,\"gdp_loss_percent\":3'' @ [CHR ''}'']"
  by code_simp

lemma decode_seed: "json_decode (json_encode seed_alt_forecasts) = Some seed_alt_forecasts"
  by code_simp

lemma trim_c7: "trim (''Here is the scenario: '' @ json_encode seed_alt_forecasts @ '' Enjoy!'')
   = ''Here is the scenario: '' @ json_encode seed_alt_forecasts @ '' Enjoy!''"
  by code_simp

lemma decode_c7: "json_decode (''Here is the scenario: '' @ json_encode seed_alt_forecasts @ '' Enjoy!'') = None"
  by code_simp

theorem parser_round_trip_brace_free_witness:
  "fst (generateScenario json_decode
          (\<lambda>request. Inr (''Here is the scenario: '' @ json_encode seed_alt_forecasts @ '' Enjoy!''))
          (Some (JStr seed_user_input)) default_baselineData default_humanImpacts)
     = Inr seed_alt_forecasts"
proof (rule parser_round_trip_brace_free
    [where JSON_stringify = json_encode and pre = "''Here is the scenario: ''"
       and post = "'' Enjoy!''"])
  show "build_prompt (Some (JStr seed_user_input)) default_baselineData default_humanImpacts
          = Inr \<lparr>prompt_userInput = Some (JStr seed_user_input),
                 prompt_global_temp = Some (JNum 11 1), prompt_sea_level_rise = Some (JNum 22 2),
                 prompt_death_toll_annual = JNum 500000 0, prompt_refugees = JNum 25000000 0,
                 prompt_gdp_loss_percent = Some (JNum 8 0)\<rparr>"
    by (rule default_prompt)
  show "Inr (''Here is the scenario: '' @ json_encode seed_alt_forecasts @ '' Enjoy!'')
          = (Inr (''Here is the scenario: '' @ json_encode seed_alt_forecasts @ '' Enjoy!'')
               :: string + string)"
    by (rule refl)
  show "json_decode (json_encode seed_alt_forecasts) = Some seed_alt_forecasts"
    by (rule decode_seed)
  show "json_encode seed_alt_forecasts
     = CHR ''{'' # ''\"global_temp_2100\":1.8,\"death_toll_annual\":180000,\"refugees\":12000000,\"arable_land_loss_percent\":8,\"population\":9800000000,\"biodiversity_loss_percent\":22,\"gdp_loss_percent\":3'' @ [CHR ''}'']"
    by (rule encode_seed)
  show "CHR ''{'' \<notin> set ''Here is the scenario: ''" by simp
  show "CHR ''}'' \<notin> set '' Enjoy!''" by simp
  show "json_decode (trim (''Here is the scenario: '' @ json_encode seed_alt_forecasts @ '' Enjoy!'')) = None
     \<or> json_decode (trim (''Here is the scenario: '' @ json_encode seed_alt_forecasts @ '' Enjoy!'')) = Some seed_alt_forecasts"
    unfolding trim_c7 decode_c7 by simp
qed

lemma trim_c7x:
  "trim (''Here is the scenario {as requested}: '' @ json_encode seed_alt_forecasts @ '' Enjoy!'')
   = ''Here is the scenario {as requested}: '' @ json_encode seed_alt_forecasts @ '' Enjoy!''"
  by code_simp

lemma decode_c7x:
  "json_decode (''Here is the scenario {as requested}: '' @ json_encode seed_alt_forecasts @ '' Enjoy!'') = None"
  by code_simp

lemma match_c7x:
  "match_braces (''Here is the scenario {as requested}: '' @ json_encode seed_alt_forecasts @ '' Enjoy!'')
     = Some (''{as requested}: '' @ json_encode seed_alt_forecasts)"
  by code_simp

lemma decode_c7y: "json_decode (''{as requested}: '' @ json_encode seed_alt_forecasts) = None"
  by code_simp

text \<open>
  Claim C7 as stated fails: with braces in the surrounding prose the brace pattern matches
  more than the object, the second decode fails, and the record is not returned.
\<close>

theorem parser_round_trip_counterexample:
  "json_decode (json_encode seed_alt_forecasts) = Some seed_alt_forecasts
   \<and> fst (generateScenario json_decode
            (\<lambda>request. Inr (''Here is the scenario {as requested}: ''
                             @ json_encode seed_alt_forecasts @ '' Enjoy!''))
            (Some (JStr seed_user_input)) default_baselineData default_humanImpacts)
       \<noteq> Inr seed_alt_forecasts"
  by (simp add: decode_seed generateScenario_def Let_def default_prompt parse_response_def
      rethrow_def trim_c7x decode_c7x match_c7x decode_c7y del: append.simps)

section \<open>Properties of scenario creation\<close>


lemma or_default_None [simp]: "or_default None d = d"
  by (simp add: or_default_def)

lemma generateScenario_default:
  "generateScenario JSON_parse openai u default_baselineData default_humanImpacts
     = (case openai (default_request u) of
          Inl message \<Rightarrow> (Inl (Error (''OpenAI API error: '' @ message)), [default_request u])
        | Inr content \<Rightarrow>
            (rethrow (parse_response JSON_parse (trim content)), [default_request u]))"
  by (simp add: generateScenario_def default_prompt default_request_def Let_def rethrow_def
      split: sum.split)

lemma generateScenario_sent:
  "build_prompt u b h = Inr p \<Longrightarrow>
     snd (generateScenario JSON_parse openai u b h)
       = [\<lparr>completion_model = ''gpt-3.5-turbo'', completion_prompt = p,
           completion_max_tokens = 1200, completion_temperature = 0.9\<rparr>]"
  by (simp add: generateScenario_def Let_def split: sum.split)

lemma post_scenarios_sent:
  "sent (post_scenarios JSON_parse JSON_stringify openai driver now db req)
     = snd (generateScenario JSON_parse openai (req_userInput req)
              (or_default (req_baselineData req) default_baselineData)
              (or_default (req_humanImpacts req) default_humanImpacts))"
  by (simp add: post_scenarios_def stmt_run_def Let_def
      split: prod.split sum.split option.split)

lemma includes_seed_fusion: "str_includes (toLowerCase seed_user_input) ''fusion''"
  by code_simp

lemma theme_has_fusion:
  "str_includes ''A fusion-powered renaissance reshaping civilization's energy landscape'' ''fusion''"
  by code_simp

text \<open>
  Claim C1, evaluated on the code. With the completion service unavailable, creating a
  scenario for the input "What if we master fusion energy before 2025?" answers with
  status 500 and the body \<^verbatim>\<open>{error: 'Failed to create scenario'}\<close> and stores nothing:
  \<^verbatim>\<open>generateScenario\<close> throws the failure again and no fallback generator is called.
  \<^verbatim>\<open>generateFallbackScenario\<close>, which the handler never calls, would return for this
  input a theme containing "fusion" and \<^verbatim>\<open>global_temp_2100\<close> 1.8.
\<close>

theorem creation_fails_when_completion_unavailable:
  "post_scenarios json_decode json_encode (\<lambda>request. Inl ''Connection error.'') (\<lambda>args. None) sample_now []
     \<lparr>req_userInput = Some (JStr seed_user_input), req_baselineData = None,
      req_humanImpacts = None\<rparr>
   = \<lparr>response = Response 500 (JObj [(''error'', JStr ''Failed to create scenario'')]),
      store = [], sent = [default_request (Some (JStr seed_user_input))]\<rparr>
   \<and> str_includes (theme (generateFallbackScenario seed_user_input () ())) ''fusion''
   \<and> global_temp_2100 (alt_forecasts (generateFallbackScenario seed_user_input () ())) = Some 1.8"
  by (simp add: post_scenarios_def generateScenario_default failed_to_create_def
      generateFallbackScenario_def includes_seed_fusion fallback_fusion_def theme_has_fusion
      forecasts7_def)

lemma trim_sample: "trim sample_object = sample_object"
  by code_simp

lemma encode_sample_forecasts:
  "json_encode sample_forecasts = ''{\"global_temp_2100\":2.1}''"
  by code_simp

lemma post_sample:
  "post_scenarios json_decode json_encode (\<lambda>request. Inr sample_object) driver now db
     \<lparr>req_userInput = Some (JStr u), req_baselineData = None, req_humanImpacts = None\<rparr>
   = \<lparr>response =
        Response 200
          (JObj [(''theme'', JStr ''A calm century''),
                 (''alt_forecasts'', sample_forecasts),
                 (''narrative'', JStr ''Slow change.''),
                 (''userInput'', JStr u)]),
      store =
        db @ [\<lparr>row_id = next_id db, row_user_input = u, row_theme = ''A calm century'',
               row_alt_forecasts = ''{\"global_temp_2100\":2.1}'',
               row_narrative = ''Slow change.'', row_created_at = now\<rparr>],
      sent = [default_request (Some (JStr u))]\<rparr>"
  by (simp add: post_scenarios_def generateScenario_default trim_sample parse_response_def
      decode_sample rethrow_def sample_value_def read_prop_def stmt_run_def bound_texts_def
      insert_row_def encode_sample_forecasts spread_def defined_properties_def lastID_def
      del: json_encode.simps)

text \<open>
  Claim C2 as stated fails on the server: a request with the empty input is not rejected.
  The completion service is called, the scenario is stored with an empty
  \<^verbatim>\<open>user_input\<close>, and the answer is a success (whose body, the value of
  \<^verbatim>\<open>stmt.run\<close> being the statement object, has no \<^verbatim>\<open>id\<close>).
\<close>

theorem empty_input_reaches_completion_counterexample:
  "post_scenarios json_decode json_encode (\<lambda>request. Inr sample_object) (\<lambda>args. None) sample_now []
     \<lparr>req_userInput = Some (JStr ''''), req_baselineData = None, req_humanImpacts = None\<rparr>
   = \<lparr>response =
        Response 200
          (JObj [(''theme'', JStr ''A calm century''),
                 (''alt_forecasts'', sample_forecasts),
                 (''narrative'', JStr ''Slow change.''),
                 (''userInput'', JStr '''')]),
      store =
        [\<lparr>row_id = 1, row_user_input = '''', row_theme = ''A calm century'',
          row_alt_forecasts = ''{\"global_temp_2100\":2.1}'',
          row_narrative = ''Slow change.'', row_created_at = sample_now\<rparr>],
      sent = [default_request (Some (JStr ''''))]\<rparr>"
  by (simp add: post_sample next_id_def)

text \<open>
  Claim C2, amended. For an input that is empty after trimming, the scenario form of the
  client sends nothing. The server handler does not check the input: for a request whose
  \<^verbatim>\<open>userInput\<close> is missing or is that string, and whose prompt can be built, it sends
  exactly one request to the completion service, with that input in the prompt.
\<close>

theorem empty_input_stopped_by_client_only:
  assumes empty: "trim u = []"
    and input: "req_userInput req = None \<or> req_userInput req = Some (JStr u)"
    and prompt: "build_prompt (req_userInput req)
                   (or_default (req_baselineData req) default_baselineData)
                   (or_default (req_humanImpacts req) default_humanImpacts) = Inr p"
  shows "client_generateScenario u climateData impacts = None
       \<and> sent (post_scenarios JSON_parse JSON_stringify openai driver now db req)
           = [\<lparr>completion_model = ''gpt-3.5-turbo'', completion_prompt = p,
               completion_max_tokens = 1200, completion_temperature = 0.9\<rparr>]
       \<and> prompt_userInput p = req_userInput req"
proof -
  have "prompt_userInput p = req_userInput req"
    using prompt
    by (auto simp: build_prompt_def split: sum.splits)
  then show ?thesis
    using empty by (simp add: client_generateScenario_def post_scenarios_sent
        generateScenario_sent [OF prompt])
qed

theorem empty_input_stopped_by_client_only_witness:
  "client_generateScenario ''   '' (Some server_baselineData) None = None
   \<and> sent (post_scenarios json_decode json_encode (\<lambda>request. Inr sample_object) (\<lambda>args. None) sample_now []
             \<lparr>req_userInput = Some (JStr ''   ''), req_baselineData = None,
              req_humanImpacts = None\<rparr>)
       = [default_request (Some (JStr ''   ''))]"
proof -
  let ?req = "\<lparr>req_userInput = Some (JStr ''   ''), req_baselineData = None,
               req_humanImpacts = None\<rparr>"
  have h1: "trim ''   '' = []"
    by code_simp
  have h2: "req_userInput ?req = None \<or> req_userInput ?req = Some (JStr ''   '')"
    by simp
  have h3: "build_prompt (req_userInput ?req)
              (or_default (req_baselineData ?req) default_baselineData)
              (or_default (req_humanImpacts ?req) default_humanImpacts)
            = Inr (completion_prompt (default_request (Some (JStr ''   ''))))"
    by (simp add: default_prompt default_request_def)
  from empty_input_stopped_by_client_only [OF h1 h2 h3]
  show ?thesis
    by (simp add: default_request_def)
qed


lemma complete_default: "complete_baseline default_baselineData"
  by (simp add: complete_baseline_def series_shaped_def default_baselineData_def)

lemma truthy_default: "truthy default_baselineData"
  by (simp add: default_baselineData_def)

text \<open>
  Claim C9 as stated fails: a baseline override that is present but partial is passed to
  the generation as it is. Here it has no \<^verbatim>\<open>sea_level_rise\<close>, the prompt cannot be
  built, and the request ends with status 500 before any completion call.
\<close>

theorem partial_baseline_counterexample:
  "or_default (Some partial_baseline) default_baselineData = partial_baseline
   \<and> \<not> complete_baseline partial_baseline
   \<and> generateScenario json_decode (\<lambda>request. Inr sample_object) (Some (JStr seed_user_input))
         partial_baseline default_humanImpacts = (Inl TypeError, [])
   \<and> post_scenarios json_decode json_encode (\<lambda>request. Inr sample_object) (\<lambda>args. None) sample_now []
         \<lparr>req_userInput = Some (JStr seed_user_input),
          req_baselineData = Some partial_baseline, req_humanImpacts = None\<rparr>
       = \<lparr>response = Response 500 (JObj [(''error'', JStr ''Failed to create scenario'')]),
          store = [], sent = []\<rparr>"
proof -
  have a: "or_default (Some partial_baseline) default_baselineData = partial_baseline"
    by (simp add: or_default_def partial_baseline_def)
  have b: "\<not> complete_baseline partial_baseline"
    by (simp add: complete_baseline_def series_shaped_def partial_baseline_def)
  have c: "generateScenario JSON_parse openai u partial_baseline h = (Inl TypeError, [])"
    for JSON_parse openai u h
    by (simp add: generateScenario_def build_prompt_def read_prop_def partial_baseline_def)
  show ?thesis
    by (simp add: a b c post_scenarios_def failed_to_create_def)
qed

lemma or_default_default:
  "or_default (Some default_baselineData) default_baselineData = default_baselineData"
  by (simp add: or_default_def)

text \<open>
  Claim C9, amended. The generation receives \<open>or_default\<close> of the override: the complete
  default baseline when the override is absent (the request then behaves exactly like one
  carrying the default baseline) or falsy, and the override itself, whatever its shape,
  when it is present and truthy.
\<close>

theorem baseline_default_only_when_absent:
  "sent (post_scenarios JSON_parse JSON_stringify openai driver now db req)
     = snd (generateScenario JSON_parse openai (req_userInput req)
              (or_default (req_baselineData req) default_baselineData)
              (or_default (req_humanImpacts req) default_humanImpacts))
   \<and> complete_baseline default_baselineData
   \<and> (req_baselineData req = None \<longrightarrow>
        or_default (req_baselineData req) default_baselineData = default_baselineData
        \<and> post_scenarios JSON_parse JSON_stringify openai driver now db req
            = post_scenarios JSON_parse JSON_stringify openai driver now db
                (req\<lparr>req_baselineData := Some default_baselineData\<rparr>))
   \<and> (\<forall>v. req_baselineData req = Some v \<longrightarrow>
          or_default (req_baselineData req) default_baselineData
            = (if truthy v then v else default_baselineData))"
proof (intro conjI impI allI)
  show "sent (post_scenarios JSON_parse JSON_stringify openai driver now db req)
          = snd (generateScenario JSON_parse openai (req_userInput req)
                   (or_default (req_baselineData req) default_baselineData)
                   (or_default (req_humanImpacts req) default_humanImpacts))"
    by (rule post_scenarios_sent)
  show "complete_baseline default_baselineData"
    by (rule complete_default)
  show "or_default (req_baselineData req) default_baselineData = default_baselineData"
    if "req_baselineData req = None"
    using that by simp
  show "post_scenarios JSON_parse JSON_stringify openai driver now db req
          = post_scenarios JSON_parse JSON_stringify openai driver now db
              (req\<lparr>req_baselineData := Some default_baselineData\<rparr>)"
    if "req_baselineData req = None"
    unfolding post_scenarios_def using that by (simp add: or_default_default)
  show "or_default (req_baselineData req) default_baselineData
          = (if truthy v then v else default_baselineData)"
    if "req_baselineData req = Some v" for v
    using that by (simp add: or_default_def)
qed

theorem baseline_default_only_when_absent_witness:
  "sent (post_scenarios json_decode json_encode (\<lambda>request. Inr sample_object) (\<lambda>args. None) sample_now []
           \<lparr>req_userInput = Some (JStr seed_user_input), req_baselineData = None,
            req_humanImpacts = None\<rparr>)
     = [default_request (Some (JStr seed_user_input))]
   \<and> post_scenarios json_decode json_encode (\<lambda>request. Inr sample_object) (\<lambda>args. None) sample_now []
         \<lparr>req_userInput = Some (JStr seed_user_input), req_baselineData = None,
          req_humanImpacts = None\<rparr>
       = post_scenarios json_decode json_encode (\<lambda>request. Inr sample_object) (\<lambda>args. None) sample_now []
           \<lparr>req_userInput = Some (JStr seed_user_input),
            req_baselineData = Some default_baselineData, req_humanImpacts = None\<rparr>"
proof -
  note t = baseline_default_only_when_absent
    [of json_decode json_encode "\<lambda>request. Inr sample_object" "\<lambda>args. None" sample_now "[]"
        "\<lparr>req_userInput = Some (JStr seed_user_input), req_baselineData = None,
          req_humanImpacts = None\<rparr>"]
  from t [THEN conjunct1] have a:
    "sent (post_scenarios json_decode json_encode (\<lambda>request. Inr sample_object) (\<lambda>args. None) sample_now []
             \<lparr>req_userInput = Some (JStr seed_user_input), req_baselineData = None,
              req_humanImpacts = None\<rparr>)
       = snd (generateScenario json_decode (\<lambda>request. Inr sample_object)
                (Some (JStr seed_user_input)) default_baselineData default_humanImpacts)"
    by simp
  from t [THEN conjunct2, THEN conjunct2, THEN conjunct1] have b:
    "post_scenarios json_decode json_encode (\<lambda>request. Inr sample_object) (\<lambda>args. None) sample_now []
         \<lparr>req_userInput = Some (JStr seed_user_input), req_baselineData = None,
          req_humanImpacts = None\<rparr>
       = post_scenarios json_decode json_encode (\<lambda>request. Inr sample_object) (\<lambda>args. None) sample_now []
           \<lparr>req_userInput = Some (JStr seed_user_input),
            req_baselineData = Some default_baselineData, req_humanImpacts = None\<rparr>"
    by simp
  have c: "snd (generateScenario json_decode (\<lambda>request. Inr sample_object)
                (Some (JStr seed_user_input)) default_baselineData default_humanImpacts)
             = [default_request (Some (JStr seed_user_input))]"
    by (simp add: generateScenario_default)
  from a b c show ?thesis by (simp only: simp_thms)
qed

section \<open>Properties of the scenario store\<close>

lemma initDatabase_fresh:
  "initDatabase JSON_stringify ts [] = [seed_row JSON_stringify 1 ts]"
  by (simp add: initDatabase_def insert_row_def next_id_def seed_row_def)

lemma initDatabase_cases:
  "initDatabase JSON_stringify ts db
     = (if list_ex (\<lambda>r. row_user_input r = seed_user_input) db then db
        else db @ [seed_row JSON_stringify (next_id db) ts])"
proof -
  have "(length (filter (\<lambda>r. row_user_input r = seed_user_input) db) = 0)
          = (\<not> list_ex (\<lambda>r. row_user_input r = seed_user_input) db)"
    by (simp add: list_ex_iff filter_empty_conv)
  then show ?thesis
    by (simp add: initDatabase_def insert_row_def seed_row_def Let_def)
qed

lemma has_seed_append: "has_seed S db \<Longrightarrow> has_seed S (db @ rows)"
  by (auto simp: has_seed_def list_ex_iff)

lemma has_seed_initDatabase: "has_seed S db \<Longrightarrow> has_seed S (initDatabase S ts db)"
  by (simp add: initDatabase_cases has_seed_append)

lemma store_stmt_run:
  "snd (stmt_run driver db args) = db \<or> (\<exists>r. snd (stmt_run driver db args) = db @ [r])"
  by (auto simp: stmt_run_def insert_row_def split: option.split list.split)

lemma store_post_scenarios:
  "store (post_scenarios JSON_parse JSON_stringify openai driver now db req) = db
   \<or> (\<exists>r. store (post_scenarios JSON_parse JSON_stringify openai driver now db req) = db @ [r])"
proof -
  have "store (post_scenarios JSON_parse JSON_stringify openai driver now db req) = db
        \<or> (\<exists>args. store (post_scenarios JSON_parse JSON_stringify openai driver now db req)
                    = snd (stmt_run driver db args))"
    by (simp add: post_scenarios_def Let_def split: prod.split sum.split)
      (metis snd_conv)
  then show ?thesis
    using store_stmt_run [of driver db] by metis
qed

lemma has_seed_post_scenarios:
  "has_seed S db \<Longrightarrow>
     has_seed S (store (post_scenarios JSON_parse JSON_stringify openai driver now db req))"
  using store_post_scenarios [of JSON_parse JSON_stringify openai driver now db req]
  by (auto simp: has_seed_append)

lemma get_scenarios_statement: "get_scenarios db = Response 200 (JArr [])"
  by (simp add: get_scenarios_def stmt_all_def)

lemma get_scenario_statement: "get_scenario JSON_parse db ident = Uncaught SyntaxError"
  by (simp add: get_scenario_def stmt_get_def)

lemma seed_temp: "member seed_alt_forecasts ''global_temp_2100'' = Some (JNum 18 1)"
  by (simp add: seed_alt_forecasts_def)

text \<open>
  Claim C10, evaluated on the code. Initialising a store without rows inserts the seed
  row, whose \<^verbatim>\<open>user_input\<close> is "What if we master fusion energy before 2025?" and whose
  \<^verbatim>\<open>alt_forecasts\<close> is the serialized seed object with \<^verbatim>\<open>global_temp_2100\<close> 1.8; the
  row is inserted exactly when no row has that \<^verbatim>\<open>user_input\<close>; once present it is kept
  by every later initialisation and every scenario creation. The list of scenarios does
  not show it: on the freshly initialised store the list handler answers with the empty
  array, because what it holds for the rows is the statement object, and reading the seed
  row by its id ends with status 500.
\<close>

theorem initDatabase_seed_not_listed:
  "initDatabase JSON_stringify ts [] = [seed_row JSON_stringify 1 ts]
   \<and> has_seed JSON_stringify (initDatabase JSON_stringify ts [])
   \<and> (has_seed JSON_stringify db \<longrightarrow>
        has_seed JSON_stringify (initDatabase JSON_stringify ts db)
        \<and> has_seed JSON_stringify
            (store (post_scenarios JSON_parse JSON_stringify openai driver now db req)))
   \<and> initDatabase JSON_stringify ts db
       = (if list_ex (\<lambda>r. row_user_input r = seed_user_input) db then db
          else db @ [seed_row JSON_stringify (next_id db) ts])
   \<and> row_user_input (seed_row JSON_stringify 1 ts)
       = ''What if we master fusion energy before 2025?''
   \<and> member seed_alt_forecasts ''global_temp_2100'' = Some (JNum 18 1)
   \<and> get_scenarios (initDatabase JSON_stringify ts []) = Response 200 (JArr [])
   \<and> status (get_scenario JSON_parse (initDatabase JSON_stringify ts []) 1) = 500"
proof (intro conjI impI)
  show "initDatabase JSON_stringify ts [] = [seed_row JSON_stringify 1 ts]"
    by (rule initDatabase_fresh)
  show "has_seed JSON_stringify (initDatabase JSON_stringify ts [])"
    by (simp add: initDatabase_fresh has_seed_def seed_row_def)
  show "has_seed JSON_stringify (initDatabase JSON_stringify ts db)"
    if "has_seed JSON_stringify db"
    using that by (rule has_seed_initDatabase)
  show "has_seed JSON_stringify
          (store (post_scenarios JSON_parse JSON_stringify openai driver now db req))"
    if "has_seed JSON_stringify db"
    using that by (rule has_seed_post_scenarios)
  show "initDatabase JSON_stringify ts db
       = (if list_ex (\<lambda>r. row_user_input r = seed_user_input) db then db
          else db @ [seed_row JSON_stringify (next_id db) ts])"
    by (rule initDatabase_cases)
  show "row_user_input (seed_row JSON_stringify 1 ts)
          = ''What if we master fusion energy before 2025?''"
    by (simp add: seed_row_def seed_user_input_def)
  show "member seed_alt_forecasts ''global_temp_2100'' = Some (JNum 18 1)"
    by (rule seed_temp)
  show "get_scenarios (initDatabase JSON_stringify ts []) = Response 200 (JArr [])"
    by (rule get_scenarios_statement)
  show "status (get_scenario JSON_parse (initDatabase JSON_stringify ts []) 1) = 500"
    by (simp add: get_scenario_statement)
qed

theorem initDatabase_seed_not_listed_witness:
  "has_seed json_encode
     (initDatabase json_encode sample_timestamp
        (store (post_scenarios json_decode json_encode (\<lambda>request. Inr sample_object)
                  (\<lambda>args. None) sample_now (initDatabase json_encode sample_timestamp [])
                  \<lparr>req_userInput = Some (JStr seed_user_input), req_baselineData = None,
                   req_humanImpacts = None\<rparr>)))
   \<and> get_scenarios (initDatabase json_encode sample_timestamp []) = Response 200 (JArr [])"
proof -
  let ?db0 = "initDatabase json_encode sample_timestamp []"
  let ?req = "\<lparr>req_userInput = Some (JStr seed_user_input), req_baselineData = None,
               req_humanImpacts = None\<rparr>"
  let ?db1 = "store (post_scenarios json_decode json_encode (\<lambda>request. Inr sample_object)
                       (\<lambda>args. None) sample_now ?db0 ?req)"
  note fresh = initDatabase_seed_not_listed
    [of json_encode sample_timestamp "[]" json_decode "\<lambda>request. Inr sample_object"
        "\<lambda>args. None" sample_now ?req]
  from fresh have s0: "has_seed json_encode ?db0"
    by (rule conjunct2 [THEN conjunct1])
  note step = initDatabase_seed_not_listed
    [of json_encode sample_timestamp ?db0 json_decode "\<lambda>request. Inr sample_object"
        "\<lambda>args. None" sample_now ?req, THEN conjunct2, THEN conjunct2, THEN conjunct1,
        rule_format, OF s0]
  from step have s1: "has_seed json_encode ?db1"
    by (rule conjunct2)
  note again = initDatabase_seed_not_listed
    [of json_encode sample_timestamp ?db1 json_decode "\<lambda>request. Inr sample_object"
        "\<lambda>args. None" sample_now ?req, THEN conjunct2, THEN conjunct2, THEN conjunct1,
        rule_format, OF s1]
  from again have s2: "has_seed json_encode (initDatabase json_encode sample_timestamp ?db1)"
    by (rule conjunct1)
  from fresh have g: "get_scenarios ?db0 = Response 200 (JArr [])"
    by (rule conjunct2 [THEN conjunct2, THEN conjunct2, THEN conjunct2, THEN conjunct2,
          THEN conjunct2, THEN conjunct1])
  from s2 g show ?thesis by (rule conjI)
qed

text \<open>
  Claim C8, evaluated on the code. The answer to a creation is the parsed completion with
  \<^verbatim>\<open>userInput\<close> added: it has no \<^verbatim>\<open>id\<close> (the value of \<^verbatim>\<open>stmt.run\<close> is the
  statement object, whose \<^verbatim>\<open>lastID\<close> is not set yet), no \<^verbatim>\<open>created_at\<close> and no
  \<^verbatim>\<open>user_input\<close>. The row is stored, with the next id and the time of the request, but the
  store hands it out nowhere: on every store the list handler answers with the empty array
  and the handler for one scenario throws for every id, known or not, which is status 500
  and never 404.
\<close>

theorem store_surface_shapes:
  "response
     (post_scenarios json_decode json_encode (\<lambda>request. Inr sample_object) (\<lambda>args. None)
        sample_now (initDatabase json_encode sample_timestamp [])
        \<lparr>req_userInput = Some (JStr ''What if the oceans calm?''), req_baselineData = None,
         req_humanImpacts = None\<rparr>)
     = Response 200
         (JObj [(''theme'', JStr ''A calm century''),
                (''alt_forecasts'', sample_forecasts),
                (''narrative'', JStr ''Slow change.''),
                (''userInput'', JStr ''What if the oceans calm?'')])
   \<and> store
       (post_scenarios json_decode json_encode (\<lambda>request. Inr sample_object) (\<lambda>args. None)
          sample_now (initDatabase json_encode sample_timestamp [])
          \<lparr>req_userInput = Some (JStr ''What if the oceans calm?''), req_baselineData = None,
           req_humanImpacts = None\<rparr>)
     = [seed_row json_encode 1 sample_timestamp,
        \<lparr>row_id = 2, row_user_input = ''What if the oceans calm?'',
         row_theme = ''A calm century'', row_alt_forecasts = ''{\"global_temp_2100\":2.1}'',
         row_narrative = ''Slow change.'', row_created_at = sample_now\<rparr>]
   \<and> get_scenarios db = Response 200 (JArr [])
   \<and> get_scenario JSON_parse db ident = Uncaught SyntaxError
   \<and> status (get_scenario JSON_parse db ident) = 500"
proof (intro conjI)
  note created = post_sample [of "\<lambda>args. None" sample_now
      "initDatabase json_encode sample_timestamp []" "''What if the oceans calm?''"]
  show "response
     (post_scenarios json_decode json_encode (\<lambda>request. Inr sample_object) (\<lambda>args. None)
        sample_now (initDatabase json_encode sample_timestamp [])
        \<lparr>req_userInput = Some (JStr ''What if the oceans calm?''), req_baselineData = None,
         req_humanImpacts = None\<rparr>)
     = Response 200
         (JObj [(''theme'', JStr ''A calm century''),
                (''alt_forecasts'', sample_forecasts),
                (''narrative'', JStr ''Slow change.''),
                (''userInput'', JStr ''What if the oceans calm?'')])"
    unfolding created by simp
  show "store
       (post_scenarios json_decode json_encode (\<lambda>request. Inr sample_object) (\<lambda>args. None)
          sample_now (initDatabase json_encode sample_timestamp [])
          \<lparr>req_userInput = Some (JStr ''What if the oceans calm?''), req_baselineData = None,
           req_humanImpacts = None\<rparr>)
     = [seed_row json_encode 1 sample_timestamp,
        \<lparr>row_id = 2, row_user_input = ''What if the oceans calm?'',
         row_theme = ''A calm century'', row_alt_forecasts = ''{\"global_temp_2100\":2.1}'',
         row_narrative = ''Slow change.'', row_created_at = sample_now\<rparr>]"
    unfolding created
    by (simp add: initDatabase_fresh next_id_def seed_row_def del: json_encode.simps)
  show "get_scenarios db = Response 200 (JArr [])"
    by (rule get_scenarios_statement)
  show "get_scenario JSON_parse db ident = Uncaught SyntaxError"
    by (rule get_scenario_statement)
  show "status (get_scenario JSON_parse db ident) = 500"
    by (simp add: get_scenario_statement)
qed

section \<open>Properties of the keyword fallback generators\<close>

text \<open>
  Claim C4, amended. Each generator lower-cases the input and takes the first class of
  its own ordered table with a keyword in the input. \<^verbatim>\<open>generateFallbackScenario\<close> tests
  fusion/energy, then net-zero/emissions/carbon, then geoengineering/climate engineering,
  then superman/hero/superhero, then time travel/time machine, and returns the generic
  scenario when none matches. \<^verbatim>\<open>createUniqueScenarioFromInput\<close> tests
  superman/hero/superhero, then time travel/time machine, then alien/extraterrestrial/ufo,
  then fusion/nuclear/energy, and fails with an error naming the input when none matches.
\<close>

theorem keyword_dispatch_tables:
  "generateFallbackScenario userInput b h
     = (case first_match fallback_table (toLowerCase userInput) of
          Some draft \<Rightarrow> draft
        | None \<Rightarrow> fallback_generic)
   \<and> createUniqueScenarioFromInput userInput b h
     = (case first_match unique_table (toLowerCase userInput) of
          Some draft \<Rightarrow> Inr draft
        | None \<Rightarrow> Inl (no_match_error userInput))"
  by (simp add: generateFallbackScenario_def createUniqueScenarioFromInput_def first_match_def
      fallback_table_def unique_table_def Let_def)

lemma lower_w: "toLowerCase ''What if aliens bring us Fusion energy?'' = ''what if aliens bring us fusion energy?''"
  by code_simp

lemma inc_w1: "str_includes ''what if aliens bring us fusion energy?'' ''fusion''"
  by code_simp

lemma inc_w2: "\<not> str_includes ''what if aliens bring us fusion energy?'' ''superman''"
   "\<not> str_includes ''what if aliens bring us fusion energy?'' ''hero''"
   "\<not> str_includes ''what if aliens bring us fusion energy?'' ''superhero''"
   "\<not> str_includes ''what if aliens bring us fusion energy?'' ''time travel''"
   "\<not> str_includes ''what if aliens bring us fusion energy?'' ''time machine''"
   "str_includes ''what if aliens bring us fusion energy?'' ''alien''"
  by code_simp+

theorem keyword_dispatch_tables_witness:
  "generateFallbackScenario ''What if aliens bring us Fusion energy?'' () () = fallback_fusion
   \<and> createUniqueScenarioFromInput ''What if aliens bring us Fusion energy?'' () () = Inr unique_alien"
  using keyword_dispatch_tables [of "''What if aliens bring us Fusion energy?''" "()" "()"]
  unfolding lower_w
  by (simp add: first_match_def fallback_table_def unique_table_def inc_w1 inc_w2
      del: str_includes.simps)

lemma lower_c: "toLowerCase ''What if cats ruled the world?'' = ''what if cats ruled the world?''"
  by code_simp

lemma inc_c: "\<not> str_includes ''what if cats ruled the world?'' ''fusion''"
   "\<not> str_includes ''what if cats ruled the world?'' ''energy''"
   "\<not> str_includes ''what if cats ruled the world?'' ''net-zero''"
   "\<not> str_includes ''what if cats ruled the world?'' ''emissions''"
   "\<not> str_includes ''what if cats ruled the world?'' ''carbon''"
   "\<not> str_includes ''what if cats ruled the world?'' ''geoengineering''"
   "\<not> str_includes ''what if cats ruled the world?'' ''climate engineering''"
   "\<not> str_includes ''what if cats ruled the world?'' ''superman''"
   "\<not> str_includes ''what if cats ruled the world?'' ''hero''"
   "\<not> str_includes ''what if cats ruled the world?'' ''superhero''"
   "\<not> str_includes ''what if cats ruled the world?'' ''time travel''"
   "\<not> str_includes ''what if cats ruled the world?'' ''time machine''"
  by code_simp+

lemma lower_g: "toLowerCase ''What if geoengineering cools the planet?'' = ''what if geoengineering cools the planet?''"
  by code_simp

lemma inc_g: "\<not> str_includes ''what if geoengineering cools the planet?'' ''superman''"
   "\<not> str_includes ''what if geoengineering cools the planet?'' ''hero''"
   "\<not> str_includes ''what if geoengineering cools the planet?'' ''superhero''"
   "\<not> str_includes ''what if geoengineering cools the planet?'' ''time travel''"
   "\<not> str_includes ''what if geoengineering cools the planet?'' ''time machine''"
   "\<not> str_includes ''what if geoengineering cools the planet?'' ''alien''"
   "\<not> str_includes ''what if geoengineering cools the planet?'' ''extraterrestrial''"
   "\<not> str_includes ''what if geoengineering cools the planet?'' ''ufo''"
   "\<not> str_includes ''what if geoengineering cools the planet?'' ''fusion''"
   "\<not> str_includes ''what if geoengineering cools the planet?'' ''nuclear''"
   "\<not> str_includes ''what if geoengineering cools the planet?'' ''energy''"
  by code_simp+

text \<open>
  Claim C4 as stated fails: on an input without any keyword \<^verbatim>\<open>generateFallbackScenario\<close>
  returns the generic scenario instead of failing, and \<^verbatim>\<open>createUniqueScenarioFromInput\<close>,
  the generator that does fail, has no geoengineering class.
\<close>

theorem keyword_fallback_counterexample:
  "generateFallbackScenario ''What if cats ruled the world?'' () () = fallback_generic
   \<and> global_temp_2100 (alt_forecasts fallback_generic) = Some 2.5
   \<and> createUniqueScenarioFromInput ''What if geoengineering cools the planet?'' () ()
       = Inl (no_match_error ''What if geoengineering cools the planet?'')"
  unfolding generateFallbackScenario_def createUniqueScenarioFromInput_def lower_c lower_g Let_def
  by (simp add: inc_c inc_g fallback_generic_def forecasts7_def del: str_includes.simps)

end
